theory Spec2Isabelle
  imports Complex_Main "HOL-Library.Sublist"
begin

section \<open>JavaScript values and strings\<close>

text \<open>
  The flight server is JavaScript. A string is modelled as a \<^typ>\<open>string\<close>, one
  \<^typ>\<open>char\<close> per UTF-16 code unit below 256; the only character of the program's
  own texts above that range, the arrow of the route line, is written as its three
  UTF-8 bytes. The tool arguments arrive as parsed JSON, so an argument is a
  \<open>jsval\<close>: \<open>undefined\<close> (a missing property), \<open>null\<close>, a boolean, a number, a
  string, an array or an object. \<open>JNum\<close> is an integral number; \<open>JFrac\<close> is a
  finite number that is not an integer, carried as the text that the runtime's
  number-to-string conversion gives for it.
\<close>

datatype jsval =
    JUndefined
  | JNull
  | JBool bool
  | JNum int
  | JFrac string
  | JStr string
  | JArr "jsval list"
  | JObj "(string \<times> jsval) list"

text \<open>\<open>!v\<close> is \<open>\<not> truthy v\<close>: the falsy values are \<open>undefined\<close>, \<open>null\<close>, \<open>false\<close>,
  \<open>0\<close> and the empty string.\<close>

fun truthy :: "jsval \<Rightarrow> bool" where
  "truthy JUndefined = False"
| "truthy JNull = False"
| "truthy (JBool b) = b"
| "truthy (JNum n) = (n \<noteq> 0)"
| "truthy (JFrac s) = True"
| "truthy (JStr s) = (s \<noteq> [])"
| "truthy (JArr xs) = True"
| "truthy (JObj kvs) = True"

text \<open>The escaped line break of the program's texts: the source writes \<open>\\n\<close> inside
  its template literals, which is a backslash followed by the letter n.\<close>

definition esc_nl :: string where
  "esc_nl = [CHR 0x5C, CHR ''n'']"

definition newline :: char where
  "newline = CHR 0x0A"

definition arrow :: string where
  "arrow = [CHR 0xE2, CHR 0x86, CHR 0x92]"

subsection \<open>Character classes of the regular expressions\<close>

definition is_upper :: "char \<Rightarrow> bool" where
  "is_upper c = (65 \<le> (of_char c :: nat) \<and> (of_char c :: nat) \<le> 90)"

definition is_lower :: "char \<Rightarrow> bool" where
  "is_lower c = (97 \<le> (of_char c :: nat) \<and> (of_char c :: nat) \<le> 122)"

text \<open>\<open>[A-Za-z]\<close>\<close>

definition is_alpha :: "char \<Rightarrow> bool" where
  "is_alpha c = (is_upper c \<or> is_lower c)"

text \<open>\<open>\d\<close>, which in JavaScript is \<open>[0-9]\<close>.\<close>

definition is_digit :: "char \<Rightarrow> bool" where
  "is_digit c = (48 \<le> (of_char c :: nat) \<and> (of_char c :: nat) \<le> 57)"

text \<open>\<open>String.prototype.toUpperCase\<close>. The program applies it only to strings that
  matched a pattern of ASCII letters and digits, where it maps \<open>a\<close>..\<open>z\<close> to
  \<open>A\<close>..\<open>Z\<close> and keeps every other character.\<close>

definition upper_char :: "char \<Rightarrow> char" where
  "upper_char c = (if is_lower c then char_of ((of_char c :: nat) - 32) else c)"

definition toUpperCase :: "string \<Rightarrow> string" where
  "toUpperCase s = map upper_char s"

subsection \<open>Decimal numerals\<close>

definition digit_char :: "int \<Rightarrow> char" where
  "digit_char d = char_of (48 + d mod 10)"

text \<open>The decimal digits of a number that is not negative.\<close>

function show_digits :: "int \<Rightarrow> string" where
  "show_digits n =
     (if n < 10 then [digit_char n] else show_digits (n div 10) @ [digit_char (n mod 10)])"
  by pat_completeness auto
termination
  by (relation "measure nat") auto

declare show_digits.simps [simp del]

text \<open>The text of an integral number, as a template literal prints it.\<close>

definition show_int :: "int \<Rightarrow> string" where
  "show_int i = (if i < 0 then CHR ''-'' # show_digits (- i) else show_digits i)"

definition digit_val :: "char \<Rightarrow> nat" where
  "digit_val c = (of_char c :: nat) - 48"

text \<open>The number that a string of decimal digits denotes.\<close>

definition read_nat :: "string \<Rightarrow> nat" where
  "read_nat s = foldl (\<lambda>acc c. 10 * acc + digit_val c) 0 s"

text \<open>\<open>String.prototype.padStart(2, '0')\<close> on the text of a number.\<close>

definition pad2 :: "string \<Rightarrow> string" where
  "pad2 s = replicate (2 - length s) (CHR ''0'') @ s"

section \<open>Errors (errorHandler.js)\<close>

text \<open>
  The two error classes of the program and every other exception: a
  \<open>ValidationError\<close> carries message, field and the rejected value, a
  \<open>FlightAPIError\<close> carries message, code and a details object, and \<open>OtherError\<close>
  is any other \<open>Error\<close> (a \<open>TypeError\<close> of the runtime, for instance) with its message.
\<close>

datatype error =
    ValidationError string string jsval
  | FlightAPIError string string "(string \<times> jsval) list"
  | OtherError string

text \<open>The table \<open>errorCodes\<close>.\<close>

definition INVALID_AIRPORT_CODE :: string where "INVALID_AIRPORT_CODE = ''INVALID_AIRPORT_CODE''"
definition INVALID_DATE_FORMAT :: string where "INVALID_DATE_FORMAT = ''INVALID_DATE_FORMAT''"
definition INVALID_PASSENGER_COUNT :: string where "INVALID_PASSENGER_COUNT = ''INVALID_PASSENGER_COUNT''"
definition FLIGHT_NOT_FOUND :: string where "FLIGHT_NOT_FOUND = ''FLIGHT_NOT_FOUND''"
definition API_RATE_LIMIT :: string where "API_RATE_LIMIT = ''API_RATE_LIMIT''"
definition API_UNAVAILABLE :: string where "API_UNAVAILABLE = ''API_UNAVAILABLE''"
definition NETWORK_ERROR :: string where "NETWORK_ERROR = ''NETWORK_ERROR''"

text \<open>\<open>errorCodes.GENERAL_ERROR\<close> is not in the table, so it is \<open>undefined\<close>, and the
  constructor's default parameter \<open>code = "GENERAL_ERROR"\<close> applies.\<close>

definition GENERAL_ERROR :: string where "GENERAL_ERROR = ''GENERAL_ERROR''"

section \<open>The validation layer (errorHandler.js)\<close>

subsection \<open>validateAirportCode\<close>

text \<open>
  \<^verbatim>\<open>if (!code || typeof code !== "string") throw ValidationError("Airport code is required", ...)\<close>
  \<^verbatim>\<open>if (code.length !== 3) throw ValidationError("Airport code must be 3 characters long", ...)\<close>
  \<^verbatim>\<open>if (!/^[A-Za-z]{3}$/.test(code)) throw ValidationError("Airport code must contain only letters", ...)\<close>
  \<^verbatim>\<open>return code.toUpperCase();\<close>
\<close>

definition matches_alpha3 :: "string \<Rightarrow> bool" where
  "matches_alpha3 s = (length s = 3 \<and> list_all is_alpha s)"

fun validateAirportCode :: "jsval \<Rightarrow> error + string" where
  "validateAirportCode (JStr s) =
     (if s = [] then Inl (ValidationError ''Airport code is required'' ''airport_code'' (JStr s))
      else if length s \<noteq> 3 then
        Inl (ValidationError ''Airport code must be 3 characters long'' ''airport_code'' (JStr s))
      else if \<not> matches_alpha3 s then
        Inl (ValidationError ''Airport code must contain only letters'' ''airport_code'' (JStr s))
      else Inr (toUpperCase s))"
| "validateAirportCode v = Inl (ValidationError ''Airport code is required'' ''airport_code'' v)"

subsection \<open>The Date object, as validateDate uses it\<close>

text \<open>
  The host supplies the clock and the local time zone. \<open>now_ms\<close> is the time value
  of \<open>new Date()\<close> (milliseconds since the epoch, UTC) and \<open>tz_minutes\<close> the offset of
  local time from UTC in minutes, positive east of Greenwich (the negation of
  \<open>getTimezoneOffset()\<close>); the offset is taken as constant over the instants compared.
\<close>

record host =
  now_ms :: int
  tz_minutes :: int

definition ms_per_day :: int where
  "ms_per_day = 86400000"

text \<open>The day number (days since 1970-01-01) of a proleptic Gregorian date; the day of
  the month enters linearly, so a day beyond the month's end runs into the next month,
  as ECMAScript's \<open>MakeDay\<close> has it.\<close>

definition days_from_civil :: "int \<Rightarrow> int \<Rightarrow> int \<Rightarrow> int" where
  "days_from_civil y m d =
     (let y' = (if m \<le> 2 then y - 1 else y);
          era = y' div 400;
          yoe = y' - era * 400;
          doy = (153 * ((m + 9) mod 12) + 2) div 5 + d - 1;
          doe = yoe * 365 + yoe div 4 - yoe div 100 + doy
      in era * 146097 + doe - 719468)"

text \<open>\<open>/^\d{4}-\d{2}-\d{2}$/\<close>, with the three numbers of a matching string.\<close>

fun date_fields :: "string \<Rightarrow> (int \<times> int \<times> int) option" where
  "date_fields [y1, y2, y3, y4, s1, m1, m2, s2, d1, d2] =
     (if list_all is_digit [y1, y2, y3, y4, m1, m2, d1, d2] \<and> s1 = CHR ''-'' \<and> s2 = CHR ''-''
      then Some (int (read_nat [y1, y2, y3, y4]), int (read_nat [m1, m2]), int (read_nat [d1, d2]))
      else None)"
| "date_fields _ = None"

text \<open>\<open>new Date(s).getTime()\<close> for a string of the date-only form: UTC midnight of the
  date, and \<open>NaN\<close> (here \<open>None\<close>) when the month is not 1..12 or the day not 1..31.
  This is the parser of Node's engine, which accepts every day number up to 31 in every
  month and lets it run over.\<close>

definition Date_parse :: "string \<Rightarrow> int option" where
  "Date_parse s =
     (case date_fields s of
        None \<Rightarrow> None
      | Some (y, m, d) \<Rightarrow>
          if 1 \<le> m \<and> m \<le> 12 \<and> 1 \<le> d \<and> d \<le> 31
          then Some (days_from_civil y m d * ms_per_day) else None)"

text \<open>\<open>date.setHours(0, 0, 0, 0)\<close>: the instant of local midnight of the local day
  that holds the instant \<open>t\<close>.\<close>

definition setHours0 :: "host \<Rightarrow> int \<Rightarrow> int" where
  "setHours0 h t =
     ((t + tz_minutes h * 60000) div ms_per_day) * ms_per_day - tz_minutes h * 60000"

subsection \<open>validateDate\<close>

text \<open>
  \<^verbatim>\<open>if (!dateString || typeof dateString !== "string") throw ValidationError(`${fieldName} is required`, ...)\<close>
  \<^verbatim>\<open>if (!dateRegex.test(dateString)) throw ValidationError(`${fieldName} must be in YYYY-MM-DD format`, ...)\<close>
  \<^verbatim>\<open>const date = new Date(dateString);\<close>
  \<^verbatim>\<open>if (isNaN(date.getTime())) throw ValidationError(`Invalid ${fieldName}`, ...)\<close>
  \<^verbatim>\<open>// Check if date is not in the past (allow today)\<close>
  \<^verbatim>\<open>const today = new Date(); today.setHours(0, 0, 0, 0); date.setHours(0, 0, 0, 0);\<close>
  \<^verbatim>\<open>if (date < today) throw ValidationError(`${fieldName} cannot be in the past`, ...)\<close>
  \<^verbatim>\<open>return dateString;\<close>
\<close>

fun validateDate :: "host \<Rightarrow> jsval \<Rightarrow> string \<Rightarrow> error + string" where
  "validateDate h (JStr s) fieldName =
     (if s = [] then Inl (ValidationError (fieldName @ '' is required'') fieldName (JStr s))
      else if date_fields s = None then
        Inl (ValidationError (fieldName @ '' must be in YYYY-MM-DD format'') fieldName (JStr s))
      else
        (case Date_parse s of
           None \<Rightarrow> Inl (ValidationError (''Invalid '' @ fieldName) fieldName (JStr s))
         | Some t \<Rightarrow>
             if setHours0 h t < setHours0 h (now_ms h)
             then Inl (ValidationError (fieldName @ '' cannot be in the past'') fieldName (JStr s))
             else Inr s))"
| "validateDate h v fieldName = Inl (ValidationError (fieldName @ '' is required'') fieldName v)"

subsection \<open>validateFlightNumber\<close>

text \<open>\<open>/^[A-Za-z]{2,3}\d{1,4}$/\<close>: two or three letters, then one to four digits.
  Letters and digits are disjoint, so the letters are the longest prefix of letters.\<close>

definition matches_flight_number :: "string \<Rightarrow> bool" where
  "matches_flight_number s =
     (let ls = takeWhile is_alpha s; ds = dropWhile is_alpha s
      in (length ls = 2 \<or> length ls = 3) \<and> 1 \<le> length ds \<and> length ds \<le> 4 \<and> list_all is_digit ds)"

fun validateFlightNumber :: "jsval \<Rightarrow> error + string" where
  "validateFlightNumber (JStr s) =
     (if s = [] then Inl (ValidationError ''Flight number is required'' ''flight_number'' (JStr s))
      else if \<not> matches_flight_number s then
        Inl (ValidationError ''Flight number must be in format: AA123, DL1234, etc.''
               ''flight_number'' (JStr s))
      else Inr (toUpperCase s))"
| "validateFlightNumber v = Inl (ValidationError ''Flight number is required'' ''flight_number'' v)"

subsection \<open>validatePassengerCount\<close>

text \<open>
  \<^verbatim>\<open>if (count !== undefined) { if (!Number.isInteger(count) || count < 1 || count > 9) throw ... }\<close>
  \<^verbatim>\<open>return count || 1;\<close>
\<close>

fun validatePassengerCount :: "jsval \<Rightarrow> error + int" where
  "validatePassengerCount JUndefined = Inr 1"
| "validatePassengerCount (JNum n) =
     (if n < 1 \<or> n > 9 then
        Inl (ValidationError ''Number of adults must be between 1 and 9'' ''adults'' (JNum n))
      else Inr n)"
| "validatePassengerCount v =
     Inl (ValidationError ''Number of adults must be between 1 and 9'' ''adults'' v)"

subsection \<open>validateTravelClass\<close>

text \<open>
  \<^verbatim>\<open>const validClasses = ["economy", "premium_economy", "business", "first"];\<close>
  \<^verbatim>\<open>if (travelClass && !validClasses.includes(travelClass)) throw ValidationError(...)\<close>
  \<^verbatim>\<open>return travelClass || "economy";\<close>
\<close>

definition validClasses :: "string list" where
  "validClasses = [''economy'', ''premium_economy'', ''business'', ''first'']"

text \<open>\<open>validClasses.join(", ")\<close>\<close>

definition validClasses_joined :: string where
  "validClasses_joined = ''economy, premium_economy, business, first''"

text \<open>\<open>validClasses.includes(v)\<close>: only a string can be equal to a member.\<close>

fun includes_class :: "jsval \<Rightarrow> bool" where
  "includes_class (JStr s) = (s \<in> set validClasses)"
| "includes_class v = False"

definition validateTravelClass :: "jsval \<Rightarrow> error + string" where
  "validateTravelClass travelClass =
     (if truthy travelClass \<and> \<not> includes_class travelClass then
        Inl (ValidationError (''Travel class must be one of: '' @ validClasses_joined)
               ''travel_class'' travelClass)
      else (case travelClass of JStr s \<Rightarrow> (if s = [] then Inr ''economy'' else Inr s)
            | _ \<Rightarrow> Inr ''economy''))"

section \<open>Rendering values\<close>

subsection \<open>Template literals\<close>

text \<open>
  \<open>`${v}`\<close> converts \<open>v\<close> to a string. The conversion of an array joins the
  conversions of its elements with commas, \<open>null\<close> and \<open>undefined\<close> elements
  giving the empty string. The conversion of an object calls its \<open>toString\<close>; an
  object parsed from JSON inherits the one that prints \<open>[object Object]\<close>, unless
  it has a property \<open>toString\<close> of its own, which is never callable, and then
  the conversion throws a \<open>TypeError\<close> (here \<open>None\<close>).
\<close>

fun js_to_string :: "jsval \<Rightarrow> string option"
  and join_elements :: "jsval list \<Rightarrow> string option"
  and element_to_string :: "jsval \<Rightarrow> string option" where
  "js_to_string JUndefined = Some ''undefined''"
| "js_to_string JNull = Some ''null''"
| "js_to_string (JBool b) = Some (if b then ''true'' else ''false'')"
| "js_to_string (JNum n) = Some (show_int n)"
| "js_to_string (JFrac s) = Some s"
| "js_to_string (JStr s) = Some s"
| "js_to_string (JArr xs) = join_elements xs"
| "js_to_string (JObj kvs) =
     (if ''toString'' \<in> set (map fst kvs) then None else Some ''[object Object]'')"
| "join_elements [] = Some []"
| "join_elements [x] = element_to_string x"
| "join_elements (x # y # ys) =
     (case element_to_string x of
        None \<Rightarrow> None
      | Some a \<Rightarrow>
          (case join_elements (y # ys) of None \<Rightarrow> None | Some b \<Rightarrow> Some (a @ '','' @ b)))"
| "element_to_string JUndefined = Some []"
| "element_to_string JNull = Some []"
| "element_to_string (JBool b) = js_to_string (JBool b)"
| "element_to_string (JNum n) = js_to_string (JNum n)"
| "element_to_string (JFrac s) = js_to_string (JFrac s)"
| "element_to_string (JStr s) = js_to_string (JStr s)"
| "element_to_string (JArr xs) = join_elements xs"
| "element_to_string (JObj kvs) = js_to_string (JObj kvs)"

definition TypeError_to_primitive :: error where
  "TypeError_to_primitive = OtherError ''Cannot convert object to primitive value''"

subsection \<open>JSON.stringify with an indentation of two spaces\<close>

definition hex_digit :: "nat \<Rightarrow> char" where
  "hex_digit d = (if d < 10 then char_of (48 + d) else char_of (87 + d))"

text \<open>\<open>QuoteJSONString\<close>: the quote, the backslash and the control characters are
  escaped; in particular a line feed inside a string is written as backslash, n.\<close>

definition json_escape_char :: "char \<Rightarrow> string" where
  "json_escape_char c =
     (let n = (of_char c :: nat) in
      if n = 0x22 then [CHR 0x5C, CHR 0x22]
      else if n = 0x5C then [CHR 0x5C, CHR 0x5C]
      else if n = 0x08 then [CHR 0x5C, CHR ''b'']
      else if n = 0x0C then [CHR 0x5C, CHR ''f'']
      else if n = 0x0A then [CHR 0x5C, CHR ''n'']
      else if n = 0x0D then [CHR 0x5C, CHR ''r'']
      else if n = 0x09 then [CHR 0x5C, CHR ''t'']
      else if n < 0x20 then [CHR 0x5C, CHR ''u'', CHR ''0'', CHR ''0'', hex_digit (n div 16), hex_digit (n mod 16)]
      else [c])"

definition json_quote :: "string \<Rightarrow> string" where
  "json_quote s = CHR 0x22 # concat (map json_escape_char s) @ [CHR 0x22]"

text \<open>\<open>Array.prototype.join\<close> of strings.\<close>

fun join_with :: "string \<Rightarrow> string list \<Rightarrow> string" where
  "join_with sep [] = []"
| "join_with sep [x] = x"
| "join_with sep (x # y # ys) = x @ sep @ join_with sep (y # ys)"

text \<open>
  \<open>SerializeJSONProperty\<close>, \<open>SerializeJSONObject\<close> and \<open>SerializeJSONArray\<close> with
  the gap of two spaces; the first argument is the current indentation. A property
  whose value is \<open>undefined\<close> is left out of an object; an \<open>undefined\<close> element of
  an array is written \<open>null\<close>. A non-empty object or array is laid out over several
  lines, separated by line feed characters.
\<close>

fun stringify :: "string \<Rightarrow> jsval \<Rightarrow> string option"
  and stringify_properties :: "string \<Rightarrow> (string \<times> jsval) list \<Rightarrow> string list"
  and stringify_elements :: "string \<Rightarrow> jsval list \<Rightarrow> string list" where
  "stringify ind JUndefined = None"
| "stringify ind JNull = Some ''null''"
| "stringify ind (JBool b) = Some (if b then ''true'' else ''false'')"
| "stringify ind (JNum n) = Some (show_int n)"
| "stringify ind (JFrac s) = Some s"
| "stringify ind (JStr s) = Some (json_quote s)"
| "stringify ind (JArr xs) =
     Some (if xs = [] then ''[]''
           else ''['' @ [newline] @ (ind @ ''  '') @
                join_with ('','' @ [newline] @ (ind @ ''  '')) (stringify_elements (ind @ ''  '') xs) @
                [newline] @ ind @ '']'')"
| "stringify ind (JObj kvs) =
     Some (if stringify_properties (ind @ ''  '') kvs = [] then ''{}''
           else ''{'' @ [newline] @ (ind @ ''  '') @
                join_with ('','' @ [newline] @ (ind @ ''  '')) (stringify_properties (ind @ ''  '') kvs) @
                [newline] @ ind @ ''}'')"
| "stringify_properties ind [] = []"
| "stringify_properties ind (kv # kvs) =
     (case stringify ind (snd kv) of
        None \<Rightarrow> stringify_properties ind kvs
      | Some t \<Rightarrow> (json_quote (fst kv) @ '': '' @ t) # stringify_properties ind kvs)"
| "stringify_elements ind [] = []"
| "stringify_elements ind (x # xs) =
     (case stringify ind x of None \<Rightarrow> ''null'' | Some t \<Rightarrow> t) # stringify_elements ind xs"

text \<open>\<open>JSON.stringify(details, null, 2)\<close> for the details object of an error.\<close>

definition stringify_details :: "(string \<times> jsval) list \<Rightarrow> string" where
  "stringify_details details =
     (case stringify [] (JObj details) of None \<Rightarrow> ''undefined'' | Some t \<Rightarrow> t)"

section \<open>formatError (errorHandler.js)\<close>

text \<open>
  The payload \<open>{content: [{type: "text", text: ...}]}\<close> is represented by its text.
  \<^verbatim>\<open>if (error instanceof ValidationError)\<close>
  \<^verbatim>\<open>  text: `Validation Error: ${error.message}\\n\\nField: ${error.field}\\nValue: ${error.value}`\<close>
  \<^verbatim>\<open>if (error instanceof FlightAPIError) {\<close>
  \<^verbatim>\<open>  let errorText = `Flight API Error: ${error.message}\\n\\nError Code: ${error.code}`;\<close>
  \<^verbatim>\<open>  if (Object.keys(error.details).length > 0)\<close>
  \<^verbatim>\<open>    errorText += `\\n\\nDetails:\\n${JSON.stringify(error.details, null, 2)}`;\<close>
  \<^verbatim>\<open>text: `An unexpected error occurred: ${error.message}\\n\\nPlease try again later or contact support if the issue persists.`\<close>
  The result is \<open>Inl\<close> when the formatting itself throws.
\<close>

datatype payload = TextContent string

fun formatError :: "error \<Rightarrow> error + payload" where
  "formatError (ValidationError message field rejected) =
     (case js_to_string rejected of
        None \<Rightarrow> Inl TypeError_to_primitive
      | Some shown \<Rightarrow>
          Inr (TextContent (''Validation Error: '' @ message @ esc_nl @ esc_nl @
                            ''Field: '' @ field @ esc_nl @ ''Value: '' @ shown)))"
| "formatError (FlightAPIError message code details) =
     Inr (TextContent (''Flight API Error: '' @ message @ esc_nl @ esc_nl @
                       ''Error Code: '' @ code @
                       (if details \<noteq> [] then
                          esc_nl @ esc_nl @ ''Details:'' @ esc_nl @ stringify_details details
                        else [])))"
| "formatError (OtherError message) =
     Inr (TextContent (''An unexpected error occurred: '' @ message @ esc_nl @ esc_nl @
                       ''Please try again later or contact support if the issue persists.''))"

section \<open>The synthetic data generator (index.js)\<close>

subsection \<open>Numbers\<close>

text \<open>
  A Number of the program is an IEEE 754 double. A finite double is a rational number,
  and the result of a product or of a sum of two Numbers is the double nearest to the
  exact result, a tie going to the double whose last bit is even. \<open>to_double x\<close> is
  that double for the exact result \<open>x\<close>, a rational number of a magnitude below the
  largest double (the Numbers of the program stay below 10000). \<open>ilog2 x\<close> is the
  binary exponent of a positive \<open>x\<close>, the integer \<open>e\<close> with \<open>2^e \<le> x < 2^(e+1)\<close>;
  \<open>ulp x\<close> is the distance between neighbouring doubles at \<open>x\<close>, 52 binary places
  below the exponent, which for a double is never below -1022. \<open>Math.floor\<close> is
  exact and is written \<open>\<lfloor>_\<rfloor>\<close>.
\<close>

function pow2 :: "int \<Rightarrow> rat" where
  "pow2 e = (if e = 0 then 1 else if 0 < e then 2 * pow2 (e - 1) else pow2 (e + 1) / 2)"
  by pat_completeness auto
termination
  by (relation "measure (\<lambda>e. nat \<bar>e\<bar>)") auto

declare pow2.simps [simp del]

function ilog2_int :: "int \<Rightarrow> int" where
  "ilog2_int n = (if n < 2 then 0 else 1 + ilog2_int (n div 2))"
  by pat_completeness auto
termination
  by (relation "measure nat") auto

declare ilog2_int.simps [simp del]

definition ilog2 :: "rat \<Rightarrow> int" where
  "ilog2 x =
     (if 1 \<le> x then ilog2_int \<lfloor>x\<rfloor>
      else (let l = ilog2_int \<lfloor>1 / x\<rfloor> in if x * pow2 l = 1 then - l else - l - 1))"

definition round_half_even :: "rat \<Rightarrow> int" where
  "round_half_even y =
     (if y - of_int \<lfloor>y\<rfloor> < 1 / 2 then \<lfloor>y\<rfloor>
      else if 1 / 2 < y - of_int \<lfloor>y\<rfloor> then \<lfloor>y\<rfloor> + 1
      else if even \<lfloor>y\<rfloor> then \<lfloor>y\<rfloor> else \<lfloor>y\<rfloor> + 1)"

definition ulp :: "rat \<Rightarrow> rat" where
  "ulp x = pow2 (max (ilog2 x) (- 1022) - 52)"

definition to_double :: "rat \<Rightarrow> rat" where
  "to_double x =
     (if x = 0 then 0
      else if 0 < x then of_int (round_half_even (x / ulp x)) * ulp x
      else - (of_int (round_half_even (- x / ulp (- x))) * ulp (- x)))"

subsection \<open>Math.random\<close>

text \<open>
  The results of the successive calls of \<open>Math.random()\<close> are an input: call number
  \<open>k\<close> of an operation returns \<open>r k\<close>. ECMAScript has every result a Number in the
  interval from 0 (inclusive) to 1 (exclusive); \<open>rng_ok\<close> says so: every draw is a
  double of that interval.
\<close>

type_synonym rng = "nat \<Rightarrow> rat"

definition rng_ok :: "rng \<Rightarrow> bool" where
  "rng_ok r = (\<forall>k. 0 \<le> r k \<and> r k < 1 \<and> to_double (r k) = r k)"

text \<open>
  \<^verbatim>\<open>const hours = Math.floor(Math.random() * 24);\<close>
  \<^verbatim>\<open>const minutes = Math.floor(Math.random() * 60);\<close>
  \<^verbatim>\<open>return `${hours.toString().padStart(2, '0')}:${minutes.toString().padStart(2, '0')}`;\<close>
  Two draws, at the positions \<open>p\<close> and \<open>p + 1\<close>.
\<close>

definition generateRandomTime :: "rng \<Rightarrow> nat \<Rightarrow> string" where
  "generateRandomTime r p =
     pad2 (show_int \<lfloor>to_double (r p * 24)\<rfloor>) @ '':'' @
     pad2 (show_int \<lfloor>to_double (r (p + 1) * 60)\<rfloor>)"

subsection \<open>Flight offers\<close>

text \<open>
  A flight offer as both back ends produce it. The type parameter is the type of the two
  price numbers: an integer for a synthetic offer, and for an offer of the provider the
  text of the number. \<open>segments\<close> is \<open>None\<close> for a synthetic offer, which has no
  such property; the properties \<open>airline_code\<close> and \<open>offer_id\<close> of a provider
  offer are never read and are left out.
\<close>

record 'n flight =
  airline :: string
  flight_number :: string
  origin :: string
  destination :: string
  departure_date :: string
  departure_time :: string
  arrival_time :: string
  duration :: string
  price_amount :: 'n
  price_currency :: string
  price_per_person :: 'n
  stops :: int
  travel_class :: string
  aircraft :: string
  booking_class :: string
  segments :: "int option"

text \<open>The table \<open>airlines\<close> of \<open>generateMockFlights\<close>: code and name.\<close>

definition airlines :: "(string \<times> string) list" where
  "airlines =
     [(''AA'', ''American Airlines''),
      (''DL'', ''Delta Air Lines''),
      (''UA'', ''United Airlines''),
      (''WN'', ''Southwest Airlines''),
      (''B6'', ''JetBlue Airways'')]"

text \<open>
  One turn of the loop of \<open>generateMockFlights\<close>; it makes ten draws, in the order of
  evaluation of the source:
  \<^verbatim>\<open>const airline = airlines[Math.floor(Math.random() * airlines.length)];\<close>
  \<^verbatim>\<open>const flightNumber = airline.code + Math.floor(Math.random() * 9000 + 1000);\<close>
  \<^verbatim>\<open>const basePrice = Math.floor(Math.random() * 800 + 200);\<close>
  \<^verbatim>\<open>const duration = Math.floor(Math.random() * 8 + 2);\<close>
  \<^verbatim>\<open>departure_time: this.generateRandomTime(), arrival_time: this.generateRandomTime(),\<close>
  \<^verbatim>\<open>duration: `${duration}h ${Math.floor(Math.random() * 60)}m`,\<close>
  \<^verbatim>\<open>price: { amount: basePrice * adults, currency: "USD", per_person: basePrice },\<close>
  \<^verbatim>\<open>stops: Math.random() > 0.6 ? 0 : 1,\<close>
  \<^verbatim>\<open>travel_class: travelClass, aircraft: "Boeing 737-800", booking_class: "V"\<close>
  Every product and every sum is rounded to a double before the next operation. Under
  \<open>rng_ok\<close> the index into \<open>airlines\<close> is below its length. The product
  \<open>basePrice * adults\<close> is one of two small integers and is exact. The literal
  \<open>0.6\<close> is the double nearest to 6/10; it lies below 6/10 and no double lies
  between the two, so that a draw exceeds the literal exactly when it exceeds 6/10,
  with which \<open>mock_stops\<close> compares it.
\<close>

definition mock_stops :: "rat \<Rightarrow> int" where
  "mock_stops x = (if x > 6 / 10 then 0 else 1)"

definition mock_flight ::
  "rng \<Rightarrow> nat \<Rightarrow> string \<Rightarrow> string \<Rightarrow> string \<Rightarrow> int \<Rightarrow> string \<Rightarrow> int flight" where
  "mock_flight r p origin' destination' departureDate adults travelClass =
     (let entry = airlines ! nat \<lfloor>to_double (r p * of_nat (length airlines))\<rfloor>;
          flightNumber = fst entry @ show_int \<lfloor>to_double (to_double (r (p + 1) * 9000) + 1000)\<rfloor>;
          basePrice = \<lfloor>to_double (to_double (r (p + 2) * 800) + 200)\<rfloor>;
          hours = \<lfloor>to_double (to_double (r (p + 3) * 8) + 2)\<rfloor>
      in \<lparr> airline = snd entry,
           flight_number = flightNumber,
           origin = origin',
           destination = destination',
           departure_date = departureDate,
           departure_time = generateRandomTime r (p + 4),
           arrival_time = generateRandomTime r (p + 6),
           duration = show_int hours @ ''h '' @ show_int \<lfloor>to_double (r (p + 8) * 60)\<rfloor> @ ''m'',
           price_amount = basePrice * adults,
           price_currency = ''USD'',
           price_per_person = basePrice,
           stops = mock_stops (r (p + 9)),
           travel_class = travelClass,
           aircraft = ''Boeing 737-800'',
           booking_class = ''V'',
           segments = None \<rparr>)"

text \<open>\<^verbatim>\<open>for (let i = 0; i < 5; i++) { ... flights.push({...}); }\<close>, turn \<open>i\<close> drawing
  from position \<open>p\<close> on.\<close>

function mock_loop ::
  "rng \<Rightarrow> string \<Rightarrow> string \<Rightarrow> string \<Rightarrow> int \<Rightarrow> string \<Rightarrow> nat \<Rightarrow> nat \<Rightarrow> int flight list
   \<Rightarrow> int flight list" where
  "mock_loop r origin' destination' departureDate adults travelClass i p flights =
     (if i < 5 then
        mock_loop r origin' destination' departureDate adults travelClass (i + 1) (p + 10)
          (flights @ [mock_flight r p origin' destination' departureDate adults travelClass])
      else flights)"
  by pat_completeness auto
termination
  by (relation "measure (\<lambda>(r, origin', destination', departureDate, adults, travelClass, i, p, flights). 5 - i)") auto

declare mock_loop.simps [simp del]

text \<open>
  \<^verbatim>\<open>return flights.sort((a, b) => a.price.amount - b.price.amount);\<close>
  The sort of the runtime is stable, as \<^const>\<open>sort_key\<close> is. The return date is a
  parameter that the function never reads.
\<close>

definition generateMockFlights ::
  "rng \<Rightarrow> string \<Rightarrow> string \<Rightarrow> string \<Rightarrow> string option \<Rightarrow> int \<Rightarrow> string \<Rightarrow> int flight list" where
  "generateMockFlights r origin' destination' departureDate returnDate adults travelClass =
     sort_key price_amount
       (mock_loop r origin' destination' departureDate adults travelClass 0 0 [])"

subsection \<open>formatFlightSearchResults\<close>

text \<open>
  One numbered block of the result text:
  \<^verbatim>\<open>result += `${index + 1}. ${flight.airline} (${flight.flight_number})\\n`;\<close>
  \<^verbatim>\<open>result += `   Time: ${flight.departure_time} -> ${flight.arrival_time} (${flight.duration})\\n`;\<close>
  \<^verbatim>\<open>result += `   Price: ${currency} ${amount} total (${currency} ${per_person}/person)\\n`;\<close>
  \<^verbatim>\<open>result += `   Aircraft: ${flight.aircraft || 'Aircraft info unavailable'} | ${flight.stops === 0 ? 'Direct' : flight.stops + ' stop(s)'}\\n`;\<close>
  \<^verbatim>\<open>result += `   Class: ${flight.travel_class}`;\<close>
  \<^verbatim>\<open>if (flight.booking_class) result += ` (${flight.booking_class})`;\<close>
  \<^verbatim>\<open>if (flight.segments && flight.segments > 1) result += ` | ${flight.segments} segments`;\<close>
  \<^verbatim>\<open>result += `\\n\\n`;\<close>
  (the source has the arrow character where \<open>->\<close> stands here). \<open>shown\<close> prints a
  price number.
\<close>

definition format_flight :: "('n \<Rightarrow> string) \<Rightarrow> int \<Rightarrow> 'n flight \<Rightarrow> string" where
  "format_flight shown index f =
     show_int (index + 1) @ ''. '' @ airline f @ '' ('' @ flight_number f @ '')'' @ esc_nl @
     ''   Time: '' @ departure_time f @ '' '' @ arrow @ '' '' @ arrival_time f @
       '' ('' @ duration f @ '')'' @ esc_nl @
     ''   Price: '' @ price_currency f @ '' '' @ shown (price_amount f) @ '' total ('' @
       price_currency f @ '' '' @ shown (price_per_person f) @ ''/person)'' @ esc_nl @
     ''   Aircraft: '' @ (if aircraft f \<noteq> [] then aircraft f else ''Aircraft info unavailable'') @
       '' | '' @ (if stops f = 0 then ''Direct'' else show_int (stops f) @ '' stop(s)'') @ esc_nl @
     ''   Class: '' @ travel_class f @
     (if booking_class f \<noteq> [] then '' ('' @ booking_class f @ '')'' else []) @
     (case segments f of
        None \<Rightarrow> []
      | Some n \<Rightarrow> if n > 1 then '' | '' @ show_int n @ '' segments'' else []) @
     esc_nl @ esc_nl"

text \<open>\<open>flights.forEach((flight, index) => ...)\<close>\<close>

fun format_flights :: "('n \<Rightarrow> string) \<Rightarrow> int \<Rightarrow> 'n flight list \<Rightarrow> string" where
  "format_flights shown index [] = []"
| "format_flights shown index (f # fs) =
     format_flight shown index f @ format_flights shown (index + 1) fs"

definition formatFlightSearchResults ::
  "bool \<Rightarrow> ('n \<Rightarrow> string) \<Rightarrow> 'n flight list \<Rightarrow> string \<Rightarrow> string \<Rightarrow> string \<Rightarrow> string option
   \<Rightarrow> string" where
  "formatFlightSearchResults useRealAPI' shown flights origin' destination' departureDate returnDate =
     ''Flight Search Results'' @ esc_nl @
     ''Route: '' @ origin' @ '' '' @ arrow @ '' '' @ destination' @ esc_nl @
     ''Departure Date: '' @ departureDate @ esc_nl @
     (case returnDate of None \<Rightarrow> [] | Some rd \<Rightarrow> ''Return Date: '' @ rd @ esc_nl) @
     (if useRealAPI' then ''Live data from Amadeus API''
      else ''Sample data (configure API for real results)'') @ esc_nl @ esc_nl @
     format_flights shown 0 flights @
     (if \<not> useRealAPI' then
        ''Note: These are sample results. Real Amadeus API integration is available with valid credentials.'' @ esc_nl
      else [])"

section \<open>The provider client (amadeusClient.js)\<close>

subsection \<open>Requests and failures of the provider's library\<close>

text \<open>The object \<open>searchParams\<close> that \<open>searchFlights\<close> of the server passes to the
  client; the return date is \<open>null\<close> (here \<open>None\<close>) for a one-way search.\<close>

record search_params =
  sp_origin :: string
  sp_destination :: string
  sp_departure_date :: string
  sp_return_date :: "string option"
  sp_adults :: int
  sp_travel_class :: string

text \<open>The object \<open>requestParams\<close> sent to the provider.\<close>

record request_params =
  originLocationCode :: string
  destinationLocationCode :: string
  departureDate :: string
  adults :: int
  currencyCode :: string
  max_results :: int
  returnDate :: "string option"
  travelClass :: "string option"

definition cabinClassMap :: "string \<Rightarrow> string option" where
  "cabinClassMap =
     [''economy'' \<mapsto> ''ECONOMY'', ''premium_economy'' \<mapsto> ''PREMIUM_ECONOMY'',
      ''business'' \<mapsto> ''BUSINESS'', ''first'' \<mapsto> ''FIRST'']"

text \<open>
  \<^verbatim>\<open>adults: adults || 1, currencyCode: 'USD', max: 10\<close>
  \<^verbatim>\<open>if (return_date) requestParams.returnDate = return_date;\<close>
  \<^verbatim>\<open>if (travel_class) requestParams.travelClass = cabinClassMap[travel_class] || 'ECONOMY';\<close>
\<close>

definition make_request :: "search_params \<Rightarrow> request_params" where
  "make_request sp =
     \<lparr> originLocationCode = sp_origin sp,
       destinationLocationCode = sp_destination sp,
       departureDate = sp_departure_date sp,
       adults = (if sp_adults sp \<noteq> 0 then sp_adults sp else 1),
       currencyCode = ''USD'',
       max_results = 10,
       returnDate = (case sp_return_date sp of None \<Rightarrow> None
                     | Some d \<Rightarrow> if d \<noteq> [] then Some d else None),
       travelClass =
         (if sp_travel_class sp \<noteq> [] then
            (case cabinClassMap (sp_travel_class sp) of
               None \<Rightarrow> Some ''ECONOMY''
             | Some c \<Rightarrow> if c \<noteq> [] then Some c else Some ''ECONOMY'')
          else None) \<rparr>"

text \<open>
  An entry of the array \<open>errors\<close> in the body of a failed provider response: its
  \<open>code\<close>, and its \<open>detail\<close>, which may be missing.
\<close>

record api_error =
  api_code :: jsval
  api_detail :: "string option"

text \<open>
  The value with which a call of the provider's library (the package \<open>amadeus\<close>)
  rejects is an object of one of the subclasses of its class \<open>ResponseError\<close>. Its
  property \<open>code\<close> is the name of the subclass. Its property \<open>response\<close> is an
  object with the properties \<open>statusCode\<close> (the HTTP status, missing when no
  response arrived) and \<open>result\<close> (the parsed body, whose array \<open>errors\<close> holds the
  provider's structured errors); its property \<open>data\<close> is taken from the property
  \<open>data\<close> of the parsed body, which the body of a failure, \<open>{"errors": [...]}\<close>,
  does not have. \<open>ResponseError\<close> does not extend \<open>Error\<close>: the object has no
  property \<open>message\<close>, and the response has no property \<open>status\<close>.
\<close>

datatype library_error_class =
  NetworkError | ParserError | ServerError | ClientError | AuthenticationError
  | NotFoundError | UnknownError

fun class_name :: "library_error_class \<Rightarrow> string" where
  "class_name NetworkError = ''NetworkError''"
| "class_name ParserError = ''ParserError''"
| "class_name ServerError = ''ServerError''"
| "class_name ClientError = ''ClientError''"
| "class_name AuthenticationError = ''AuthenticationError''"
| "class_name NotFoundError = ''NotFoundError''"
| "class_name UnknownError = ''UnknownError''"

record library_response =
  statusCode :: "int option"
  result_errors :: "api_error list"

record response_error =
  error_class :: library_error_class
  error_response :: library_response

text \<open>The result of awaiting a call of the provider's library: it resolves with a
  response whose \<open>data\<close> is a list or missing, or it rejects.\<close>

datatype 'raw sdk_result = Resolved "'raw list option" | Rejected response_error

subsection \<open>The catch block of searchFlights\<close>

text \<open>
  What the catch blocks of the client read of a caught value that is not a
  \<open>FlightAPIError\<close>: \<open>error.code\<close>, \<open>error.message\<close> and \<open>error.response\<close>, and
  of a truthy response \<open>error.response.status\<close> and the entries of
  \<open>error.response.data.errors\<close> (the empty list when \<open>error.response.data\<close> is
  falsy, or has no truthy \<open>errors\<close>, or the array has no entry, which the client
  treats alike). A property that the caught object does not have reads as
  \<open>undefined\<close>.
\<close>

record response_view =
  response_status :: jsval
  response_data_errors :: "api_error list"

record thrown =
  thrown_code :: jsval
  thrown_message :: jsval
  thrown_response :: "response_view option"

text \<open>
  A rejection of the library under these reads: its \<open>code\<close> is the class name; it has
  no \<open>message\<close>; its response is an object without \<open>status\<close> and without
  \<open>data\<close>. The HTTP status and the structured errors of the rejection are under
  \<open>statusCode\<close> and \<open>result.errors\<close>, which the client does not read.
\<close>

definition thrown_of_rejection :: "response_error \<Rightarrow> thrown" where
  "thrown_of_rejection e =
     \<lparr> thrown_code = JStr (class_name (error_class e)),
       thrown_message = JUndefined,
       thrown_response = Some \<lparr> response_status = JUndefined, response_data_errors = [] \<rparr> \<rparr>"

text \<open>An exception of the runtime (a \<open>TypeError\<close>) under the same reads: a message,
  no code and no response.\<close>

definition thrown_of_exception :: "string \<Rightarrow> thrown" where
  "thrown_of_exception msg =
     \<lparr> thrown_code = JUndefined, thrown_message = JStr msg, thrown_response = None \<rparr>"

text \<open>What the \<open>try\<close> block can throw: a \<open>FlightAPIError\<close> of the client's own, or
  anything else.\<close>

datatype caught = CaughtFlightAPIError error | CaughtOther thrown

text \<open>
  \<^verbatim>\<open>if (error instanceof FlightAPIError) throw error;\<close>
  \<^verbatim>\<open>if (error.response && error.response.data) {\<close>
  \<^verbatim>\<open>  const amadeusError = error.response.data;\<close>
  \<^verbatim>\<open>  if (amadeusError.errors && amadeusError.errors.length > 0) {\<close>
  \<^verbatim>\<open>    const firstError = amadeusError.errors[0];\<close>
  \<^verbatim>\<open>    if (firstError.code === 38189) throw FlightAPIError('Invalid airport code provided', INVALID_AIRPORT_CODE, { detail })\<close>
  \<^verbatim>\<open>    if (firstError.code === 4926) throw FlightAPIError('Invalid date format or date in the past', INVALID_DATE_FORMAT, { detail })\<close>
  \<^verbatim>\<open>    throw FlightAPIError(firstError.detail || 'Amadeus API error', API_UNAVAILABLE, { code, detail })\<close>
  \<^verbatim>\<open>} }\<close>
  \<^verbatim>\<open>if (error.code === 'ENOTFOUND' || error.code === 'ECONNREFUSED')\<close>
  \<^verbatim>\<open>  throw FlightAPIError('Unable to connect to flight data service', NETWORK_ERROR, { originalError: error.message })\<close>
  \<^verbatim>\<open>if (error.response && error.response.status === 429)\<close>
  \<^verbatim>\<open>  throw FlightAPIError('API rate limit exceeded. Please try again later', API_RATE_LIMIT)\<close>
  \<^verbatim>\<open>throw FlightAPIError('Failed to search flights', API_UNAVAILABLE, { originalError: error.message })\<close>
\<close>

definition detail_value :: "string option \<Rightarrow> jsval" where
  "detail_value d = (case d of None \<Rightarrow> JUndefined | Some t \<Rightarrow> JStr t)"

definition first_api_error :: "thrown \<Rightarrow> api_error option" where
  "first_api_error e =
     (case thrown_response e of
        None \<Rightarrow> None
      | Some resp \<Rightarrow>
          (case response_data_errors resp of [] \<Rightarrow> None | firstError # rest \<Rightarrow> Some firstError))"

definition search_catch :: "caught \<Rightarrow> error" where
  "search_catch c =
     (case c of
        CaughtFlightAPIError e \<Rightarrow> e
      | CaughtOther e \<Rightarrow>
          (case first_api_error e of
             Some firstError \<Rightarrow>
               if api_code firstError = JNum 38189 then
                 FlightAPIError ''Invalid airport code provided'' INVALID_AIRPORT_CODE
                   [(''detail'', detail_value (api_detail firstError))]
               else if api_code firstError = JNum 4926 then
                 FlightAPIError ''Invalid date format or date in the past'' INVALID_DATE_FORMAT
                   [(''detail'', detail_value (api_detail firstError))]
               else
                 FlightAPIError
                   (case api_detail firstError of
                      None \<Rightarrow> ''Amadeus API error''
                    | Some d \<Rightarrow> if d \<noteq> [] then d else ''Amadeus API error'')
                   API_UNAVAILABLE
                   [(''code'', api_code firstError), (''detail'', detail_value (api_detail firstError))]
           | None \<Rightarrow>
               if thrown_code e = JStr ''ENOTFOUND'' \<or> thrown_code e = JStr ''ECONNREFUSED'' then
                 FlightAPIError ''Unable to connect to flight data service'' NETWORK_ERROR
                   [(''originalError'', thrown_message e)]
               else if (case thrown_response e of
                          None \<Rightarrow> False
                        | Some resp \<Rightarrow> response_status resp = JNum 429) then
                 FlightAPIError ''API rate limit exceeded. Please try again later'' API_RATE_LIMIT []
               else
                 FlightAPIError ''Failed to search flights'' API_UNAVAILABLE
                   [(''originalError'', thrown_message e)]))"

subsection \<open>searchFlights of the client\<close>

text \<open>The object \<open>{ searchParams }\<close> given as details of the not-found error.\<close>

definition search_params_value :: "search_params \<Rightarrow> jsval" where
  "search_params_value sp =
     JObj [(''origin'', JStr (sp_origin sp)),
           (''destination'', JStr (sp_destination sp)),
           (''departure_date'', JStr (sp_departure_date sp)),
           (''return_date'', (case sp_return_date sp of None \<Rightarrow> JNull | Some d \<Rightarrow> JStr d)),
           (''adults'', JNum (sp_adults sp)),
           (''travel_class'', JStr (sp_travel_class sp))]"

text \<open>
  \<^verbatim>\<open>const response = await this.amadeus.shopping.flightOffersSearch.get(requestParams);\<close>
  \<^verbatim>\<open>if (!response.data || response.data.length === 0)\<close>
  \<^verbatim>\<open>  throw new FlightAPIError('No flights found for the specified criteria', FLIGHT_NOT_FOUND, { searchParams });\<close>
  \<^verbatim>\<open>return this.formatFlightOffers(response.data);\<close>
  all inside the \<open>try\<close> block. The call of the provider's library is the parameter
  \<open>get\<close>. The normalisation \<open>formatFlightOffers\<close> of the provider's offers is the
  parameter \<open>normalise\<close>: it returns the offers in the server's shape, or throws an
  exception (a \<open>TypeError\<close> on an offer that lacks an itinerary, for instance), given
  here by its message.
\<close>

definition try_search ::
  "(request_params \<Rightarrow> 'raw sdk_result) \<Rightarrow> ('raw list \<Rightarrow> string + string flight list)
   \<Rightarrow> search_params \<Rightarrow> caught + string flight list" where
  "try_search get normalise sp =
     (case get (make_request sp) of
        Rejected e \<Rightarrow> Inl (CaughtOther (thrown_of_rejection e))
      | Resolved None \<Rightarrow>
          Inl (CaughtFlightAPIError
                 (FlightAPIError ''No flights found for the specified criteria'' FLIGHT_NOT_FOUND
                    [(''searchParams'', search_params_value sp)]))
      | Resolved (Some offers) \<Rightarrow>
          if offers = [] then
            Inl (CaughtFlightAPIError
                   (FlightAPIError ''No flights found for the specified criteria'' FLIGHT_NOT_FOUND
                      [(''searchParams'', search_params_value sp)]))
          else
            (case normalise offers of
               Inl msg \<Rightarrow>
                 Inl (CaughtOther (thrown_of_exception msg))
             | Inr flights \<Rightarrow> Inr flights))"

definition amadeus_searchFlights ::
  "(request_params \<Rightarrow> 'raw sdk_result) \<Rightarrow> ('raw list \<Rightarrow> string + string flight list)
   \<Rightarrow> search_params \<Rightarrow> error + string flight list" where
  "amadeus_searchFlights get normalise sp =
     (case try_search get normalise sp of
        Inl c \<Rightarrow> Inl (search_catch c)
      | Inr flights \<Rightarrow> Inr flights)"

subsection \<open>getAirportInfo of the client\<close>

text \<open>An airport as both back ends give it; the two coordinates are carried as the
  texts that the result prints for the numbers.\<close>

record airport =
  ap_code :: string
  ap_name :: string
  ap_city :: string
  ap_country :: string
  ap_timezone :: string
  ap_lat :: string
  ap_lon :: string

text \<open>A location of the provider's reference data: the properties the client reads,
  each optional one \<open>None\<close> when it is missing.\<close>

record location =
  loc_iataCode :: string
  loc_name :: string
  loc_cityName :: "string option"
  loc_countryName :: "string option"
  loc_timeZoneOffset :: "string option"
  loc_latitude :: "string option"
  loc_longitude :: "string option"

definition or_default :: "string option \<Rightarrow> string \<Rightarrow> string" where
  "or_default v d = (case v of None \<Rightarrow> d | Some t \<Rightarrow> if t \<noteq> [] then t else d)"

text \<open>
  \<^verbatim>\<open>const response = await this.amadeus.referenceData.locations.get({keyword: airportCode, subType: 'AIRPORT', 'page[limit]': 1});\<close>
  \<^verbatim>\<open>if (!response.data || response.data.length === 0)\<close>
  \<^verbatim>\<open>  throw new FlightAPIError(`Airport information not found for code: ${airportCode}`, INVALID_AIRPORT_CODE, { airport_code: airportCode });\<close>
  \<^verbatim>\<open>const airport = response.data[0];\<close>
  \<^verbatim>\<open>return { code: airport.iataCode, name: airport.name, city: airport.address?.cityName || 'Unknown', ... };\<close>
  and in the catch block every exception that is not a \<open>FlightAPIError\<close> becomes
  \<^verbatim>\<open>FlightAPIError('Failed to get airport information', API_UNAVAILABLE, { originalError: error.message })\<close>
\<close>

definition amadeus_getAirportInfo :: "(string \<Rightarrow> location sdk_result) \<Rightarrow> string \<Rightarrow> error + airport" where
  "amadeus_getAirportInfo get airportCode =
     (case get airportCode of
        Rejected e \<Rightarrow>
          Inl (FlightAPIError ''Failed to get airport information'' API_UNAVAILABLE
                 [(''originalError'', thrown_message (thrown_of_rejection e))])
      | Resolved None \<Rightarrow>
          Inl (FlightAPIError (''Airport information not found for code: '' @ airportCode)
                 INVALID_AIRPORT_CODE [(''airport_code'', JStr airportCode)])
      | Resolved (Some []) \<Rightarrow>
          Inl (FlightAPIError (''Airport information not found for code: '' @ airportCode)
                 INVALID_AIRPORT_CODE [(''airport_code'', JStr airportCode)])
      | Resolved (Some (loc # rest)) \<Rightarrow>
          Inr \<lparr> ap_code = loc_iataCode loc,
                ap_name = loc_name loc,
                ap_city = or_default (loc_cityName loc) ''Unknown'',
                ap_country = or_default (loc_countryName loc) ''Unknown'',
                ap_timezone = or_default (loc_timeZoneOffset loc) ''Unknown'',
                ap_lat = or_default (loc_latitude loc) ''0'',
                ap_lon = or_default (loc_longitude loc) ''0'' \<rparr>)"

section \<open>The query dispatcher (index.js)\<close>

subsection \<open>The environment of a call\<close>

text \<open>
  Everything a call reads besides its arguments: the mode flag \<open>this.useRealAPI\<close>,
  the host's clock and time zone, the draws of \<open>Math.random()\<close>, the two calls of
  the provider's library and the normalisation of the provider's offers.
\<close>

record 'raw world =
  useRealAPI :: bool
  clock :: host
  random :: rng
  flightOffersSearch_get :: "request_params \<Rightarrow> 'raw sdk_result"
  formatFlightOffers :: "'raw list \<Rightarrow> string + string flight list"
  locations_get :: "string \<Rightarrow> location sdk_result"

text \<open>The calls of a back end that an operation makes, in order: the provider's flight
  search, the provider's airport lookup, or the synthetic flight generator.\<close>

datatype backend_call = ProviderSearch search_params | ProviderAirport string | Generator

text \<open>\<open>args.name\<close>: the property of the arguments object, \<open>undefined\<close> when it is
  missing.\<close>

definition property :: "(string \<times> jsval) list \<Rightarrow> string \<Rightarrow> jsval" where
  "property obj name = (case map_of obj name of None \<Rightarrow> JUndefined | Some v \<Rightarrow> v)"

subsection \<open>searchFlights\<close>

text \<open>\<^verbatim>\<open>new Date(validatedReturnDate) <= new Date(validatedDepartureDate)\<close>; a comparison
  with an invalid date is false.\<close>

definition date_le :: "string \<Rightarrow> string \<Rightarrow> bool" where
  "date_le a b =
     (case Date_parse a of
        None \<Rightarrow> False
      | Some x \<Rightarrow> (case Date_parse b of None \<Rightarrow> False | Some y \<Rightarrow> x \<le> y))"

record validated_search =
  validatedOrigin :: string
  validatedDestination :: string
  validatedDepartureDate :: string
  validatedReturnDate :: "string option"
  validatedAdults :: int
  validatedTravelClass :: string

text \<open>
  The statements of \<open>searchFlights\<close> before its \<open>try\<close> block, in their order:
  \<^verbatim>\<open>const validatedOrigin = validateAirportCode(args.origin);\<close>
  \<^verbatim>\<open>const validatedDestination = validateAirportCode(args.destination);\<close>
  \<^verbatim>\<open>const validatedDepartureDate = validateDate(args.departure_date, "departure_date");\<close>
  \<^verbatim>\<open>const validatedAdults = validatePassengerCount(args.adults);\<close>
  \<^verbatim>\<open>const validatedTravelClass = validateTravelClass(args.travel_class);\<close>
  \<^verbatim>\<open>let validatedReturnDate = null;\<close>
  \<^verbatim>\<open>if (args.return_date) {\<close>
  \<^verbatim>\<open>  validatedReturnDate = validateDate(args.return_date, "return_date");\<close>
  \<^verbatim>\<open>  if (new Date(validatedReturnDate) <= new Date(validatedDepartureDate))\<close>
  \<^verbatim>\<open>    throw new ValidationError("Return date must be after departure date", "return_date", args.return_date);\<close>
  \<^verbatim>\<open>}\<close>
  \<^verbatim>\<open>if (validatedOrigin === validatedDestination)\<close>
  \<^verbatim>\<open>  throw new ValidationError("Origin and destination airports must be different", "destination", args.destination);\<close>
\<close>

definition validate_return_date :: "host \<Rightarrow> jsval \<Rightarrow> string \<Rightarrow> error + string option" where
  "validate_return_date h return_date dep =
     (if truthy return_date then
        (case validateDate h return_date ''return_date'' of
           Inl e \<Rightarrow> Inl e
         | Inr rd \<Rightarrow>
             if date_le rd dep then
               Inl (ValidationError ''Return date must be after departure date'' ''return_date''
                      return_date)
             else Inr (Some rd))
      else Inr None)"

definition validate_search :: "host \<Rightarrow> (string \<times> jsval) list \<Rightarrow> error + validated_search" where
  "validate_search h args =
     (case validateAirportCode (property args ''origin'') of
        Inl e \<Rightarrow> Inl e
      | Inr vo \<Rightarrow>
     (case validateAirportCode (property args ''destination'') of
        Inl e \<Rightarrow> Inl e
      | Inr vd \<Rightarrow>
     (case validateDate h (property args ''departure_date'') ''departure_date'' of
        Inl e \<Rightarrow> Inl e
      | Inr dep \<Rightarrow>
     (case validatePassengerCount (property args ''adults'') of
        Inl e \<Rightarrow> Inl e
      | Inr n \<Rightarrow>
     (case validateTravelClass (property args ''travel_class'') of
        Inl e \<Rightarrow> Inl e
      | Inr tc \<Rightarrow>
     (case validate_return_date h (property args ''return_date'') dep of
        Inl e \<Rightarrow> Inl e
      | Inr rd \<Rightarrow>
          if vo = vd then
            Inl (ValidationError ''Origin and destination airports must be different''
                   ''destination'' (property args ''destination''))
          else
            Inr \<lparr> validatedOrigin = vo, validatedDestination = vd,
                  validatedDepartureDate = dep, validatedReturnDate = rd,
                  validatedAdults = n, validatedTravelClass = tc \<rparr>))))))"

text \<open>
  After either back end:
  \<^verbatim>\<open>if (flights.length === 0)\<close>
  \<^verbatim>\<open>  throw new FlightAPIError("No flights found for the specified criteria", FLIGHT_NOT_FOUND, { origin, destination, date });\<close>
  \<^verbatim>\<open>const resultText = this.formatFlightSearchResults(flights, ...);\<close>
  \<^verbatim>\<open>return { content: [{ type: "text", text: resultText }] };\<close>
\<close>

definition search_result ::
  "bool \<Rightarrow> ('n \<Rightarrow> string) \<Rightarrow> validated_search \<Rightarrow> 'n flight list \<Rightarrow> error + payload" where
  "search_result live shown v flights =
     (if flights = [] then
        Inl (FlightAPIError ''No flights found for the specified criteria'' FLIGHT_NOT_FOUND
               [(''origin'', JStr (validatedOrigin v)),
                (''destination'', JStr (validatedDestination v)),
                (''date'', JStr (validatedDepartureDate v))])
      else
        Inr (TextContent
               (formatFlightSearchResults live shown flights (validatedOrigin v)
                  (validatedDestination v) (validatedDepartureDate v) (validatedReturnDate v))))"

text \<open>
  The catch block of the server's \<open>searchFlights\<close>:
  \<^verbatim>\<open>if (error instanceof ValidationError || error instanceof FlightAPIError) throw error;\<close>
  \<^verbatim>\<open>throw new FlightAPIError("Failed to search for flights", API_UNAVAILABLE, { originalError: error.message });\<close>
\<close>

fun search_rethrow :: "error \<Rightarrow> error" where
  "search_rethrow (OtherError msg) =
     FlightAPIError ''Failed to search for flights'' API_UNAVAILABLE [(''originalError'', JStr msg)]"
| "search_rethrow e = e"

definition params_of :: "validated_search \<Rightarrow> search_params" where
  "params_of v =
     \<lparr> sp_origin = validatedOrigin v, sp_destination = validatedDestination v,
       sp_departure_date = validatedDepartureDate v, sp_return_date = validatedReturnDate v,
       sp_adults = validatedAdults v, sp_travel_class = validatedTravelClass v \<rparr>"

text \<open>The \<open>try\<close> block: the provider client when \<open>this.useRealAPI\<close> holds, else the
  synthetic generator; the second component lists the back-end calls made.\<close>

definition search_try :: "'raw world \<Rightarrow> validated_search \<Rightarrow> (error + payload) \<times> backend_call list" where
  "search_try w v =
     (if useRealAPI w then
        (case amadeus_searchFlights (flightOffersSearch_get w) (formatFlightOffers w) (params_of v) of
           Inl e \<Rightarrow> (Inl (search_rethrow e), [ProviderSearch (params_of v)])
         | Inr flights \<Rightarrow>
             (case search_result True (\<lambda>t. t) v flights of
                Inl e \<Rightarrow> (Inl (search_rethrow e), [ProviderSearch (params_of v)])
              | Inr p \<Rightarrow> (Inr p, [ProviderSearch (params_of v)])))
      else
        (case search_result False show_int v
                (generateMockFlights (random w) (validatedOrigin v) (validatedDestination v)
                   (validatedDepartureDate v) (validatedReturnDate v) (validatedAdults v)
                   (validatedTravelClass v)) of
           Inl e \<Rightarrow> (Inl (search_rethrow e), [Generator])
         | Inr p \<Rightarrow> (Inr p, [Generator])))"

definition searchFlights ::
  "'raw world \<Rightarrow> (string \<times> jsval) list \<Rightarrow> (error + payload) \<times> backend_call list" where
  "searchFlights w args =
     (case validate_search (clock w) args of
        Inl e \<Rightarrow> (Inl e, [])
      | Inr v \<Rightarrow> search_try w v)"

subsection \<open>getAirportInfo\<close>

definition mockAirports :: "(string \<times> airport) list" where
  "mockAirports =
     [(''LAX'', \<lparr> ap_code = ''LAX'', ap_name = ''Los Angeles International Airport'',
                  ap_city = ''Los Angeles'', ap_country = ''United States'',
                  ap_timezone = ''America/Los_Angeles'', ap_lat = ''33.9425'', ap_lon = ''-118.4081'' \<rparr>),
      (''JFK'', \<lparr> ap_code = ''JFK'', ap_name = ''John F. Kennedy International Airport'',
                  ap_city = ''New York'', ap_country = ''United States'',
                  ap_timezone = ''America/New_York'', ap_lat = ''40.6413'', ap_lon = ''-73.7781'' \<rparr>),
      (''LHR'', \<lparr> ap_code = ''LHR'', ap_name = ''London Heathrow Airport'',
                  ap_city = ''London'', ap_country = ''United Kingdom'',
                  ap_timezone = ''Europe/London'', ap_lat = ''51.47'', ap_lon = ''-0.4543'' \<rparr>),
      (''NRT'', \<lparr> ap_code = ''NRT'', ap_name = ''Narita International Airport'',
                  ap_city = ''Tokyo'', ap_country = ''Japan'',
                  ap_timezone = ''Asia/Tokyo'', ap_lat = ''35.7719'', ap_lon = ''140.3928'' \<rparr>)]"

definition airport_text :: "bool \<Rightarrow> airport \<Rightarrow> string" where
  "airport_text live a =
     ''Airport Information'' @ esc_nl @ esc_nl @
     ''Code: '' @ ap_code a @ esc_nl @
     ''Name: '' @ ap_name a @ esc_nl @
     ''City: '' @ ap_city a @ esc_nl @
     ''Country: '' @ ap_country a @ esc_nl @
     ''Timezone: '' @ ap_timezone a @ esc_nl @
     ''Coordinates: '' @ ap_lat a @ '', '' @ ap_lon a @ esc_nl @ esc_nl @
     (if live then ''Data from Amadeus API'' else ''Sample data'')"

text \<open>The validation stands before the \<open>try\<close> block; inside it, the provider client
  or the table \<open>mockAirports\<close>, whose miss throws
  \<^verbatim>\<open>FlightAPIError(`Airport information not found for code: ${code}`, INVALID_AIRPORT_CODE, { airport_code: code })\<close>\<close>

definition getAirportInfo ::
  "'raw world \<Rightarrow> (string \<times> jsval) list \<Rightarrow> (error + payload) \<times> backend_call list" where
  "getAirportInfo w args =
     (case validateAirportCode (property args ''airport_code'') of
        Inl e \<Rightarrow> (Inl e, [])
      | Inr code \<Rightarrow>
          if useRealAPI w then
            (case amadeus_getAirportInfo (locations_get w) code of
               Inl e \<Rightarrow> (Inl e, [ProviderAirport code])
             | Inr a \<Rightarrow> (Inr (TextContent (airport_text True a)), [ProviderAirport code]))
          else
            (case map_of mockAirports code of
               None \<Rightarrow>
                 (Inl (FlightAPIError (''Airport information not found for code: '' @ code)
                         INVALID_AIRPORT_CODE [(''airport_code'', JStr code)]), [])
             | Some a \<Rightarrow> (Inr (TextContent (airport_text False a)), [])))"

subsection \<open>getFlightStatus\<close>

definition statuses :: "string list" where
  "statuses = [''On Time'', ''Delayed'', ''Boarding'', ''Departed'', ''Arrived'', ''Cancelled'']"

definition gates :: "string list" where
  "gates = [''A12'', ''B7'', ''C14'', ''D9'', ''E23'']"

text \<open>
  \<^verbatim>\<open>const status = statuses[Math.floor(Math.random() * statuses.length)];\<close>
  \<^verbatim>\<open>const gate = gates[Math.floor(Math.random() * gates.length)];\<close>
  are the draws 0 and 1; under \<open>rng_ok\<close> both indices are in range.
\<close>

definition drawn_status :: "rng \<Rightarrow> string" where
  "drawn_status r = statuses ! nat \<lfloor>to_double (r 0 * of_nat (length statuses))\<rfloor>"

definition drawn_gate :: "rng \<Rightarrow> string" where
  "drawn_gate r = gates ! nat \<lfloor>to_double (r 1 * of_nat (length gates))\<rfloor>"

text \<open>
  The result text is built line by line, each line closed by the escaped line break:
  \<^verbatim>\<open>let resultText = `Flight Status\\n\\n`;\<close>
  \<^verbatim>\<open>resultText += `Flight: ${validatedFlightNumber}\\n`;\<close>
  \<^verbatim>\<open>resultText += `Date: ${validatedDate}\\n`;\<close>
  \<^verbatim>\<open>resultText += `Status: ${status}\\n`;\<close>
  \<^verbatim>\<open>if (status !== "Cancelled") {\<close>
  \<^verbatim>\<open>  resultText += `Gate: ${gate}\\n`;\<close>
  \<^verbatim>\<open>  resultText += `Scheduled Departure: ${this.generateRandomTime()}\\n`;\<close>
  \<^verbatim>\<open>  if (status === "Delayed") {\<close>
  \<^verbatim>\<open>    resultText += `Estimated Departure: ${this.generateRandomTime()}\\n`;\<close>
  \<^verbatim>\<open>    resultText += `Delay Reason: Weather conditions\\n`;\<close>
  \<^verbatim>\<open>  }\<close>
  \<^verbatim>\<open>  if (status === "Arrived" || status === "Departed")\<close>
  \<^verbatim>\<open>    resultText += `Actual Time: ${this.generateRandomTime()}\\n`;\<close>
  \<^verbatim>\<open>} else {\<close>
  \<^verbatim>\<open>  resultText += `Flight has been cancelled. Please contact your airline for rebooking options.\\n`;\<close>
  \<^verbatim>\<open>}\<close>
  \<open>flight_status_lines\<close> is the list of these lines, \<open>render_lines\<close> their text.
\<close>

definition flight_status_lines :: "rng \<Rightarrow> string \<Rightarrow> string \<Rightarrow> string list" where
  "flight_status_lines r flightNumber date =
     [''Flight Status'', [],
      ''Flight: '' @ flightNumber,
      ''Date: '' @ date,
      ''Status: '' @ drawn_status r] @
     (if drawn_status r \<noteq> ''Cancelled'' then
        [''Gate: '' @ drawn_gate r,
         ''Scheduled Departure: '' @ generateRandomTime r 2] @
        (if drawn_status r = ''Delayed'' then
           [''Estimated Departure: '' @ generateRandomTime r 4,
            ''Delay Reason: Weather conditions'']
         else []) @
        (if drawn_status r = ''Arrived'' \<or> drawn_status r = ''Departed'' then
           [''Actual Time: '' @ generateRandomTime r 4]
         else [])
      else
        [''Flight has been cancelled. Please contact your airline for rebooking options.''])"

definition render_lines :: "string list \<Rightarrow> string" where
  "render_lines ls = concat (map (\<lambda>l. l @ esc_nl) ls)"

definition getFlightStatus :: "'raw world \<Rightarrow> (string \<times> jsval) list \<Rightarrow> error + payload" where
  "getFlightStatus w args =
     (case validateFlightNumber (property args ''flight_number'') of
        Inl e \<Rightarrow> Inl e
      | Inr validatedFlightNumber \<Rightarrow>
          (case validateDate (clock w) (property args ''date'') ''date'' of
             Inl e \<Rightarrow> Inl e
           | Inr validatedDate \<Rightarrow>
               Inr (TextContent
                      (render_lines
                         (flight_status_lines (random w) validatedFlightNumber validatedDate)))))"

subsection \<open>getAirlineInfo\<close>

record airline_record =
  al_name :: string
  al_country :: string
  al_founded :: int
  al_hub :: string
  al_fleet_size :: string
  al_destinations :: string

definition mockAirlines :: "(string \<times> airline_record) list" where
  "mockAirlines =
     [(''AA'', \<lparr> al_name = ''American Airlines'', al_country = ''United States'',
                 al_founded = 1930, al_hub = ''Dallas/Fort Worth International Airport'',
                 al_fleet_size = ''850+'', al_destinations = ''350+'' \<rparr>),
      (''DL'', \<lparr> al_name = ''Delta Air Lines'', al_country = ''United States'',
                 al_founded = 1924, al_hub = ''Hartsfield-Jackson Atlanta International Airport'',
                 al_fleet_size = ''800+'', al_destinations = ''325+'' \<rparr>),
      (''UA'', \<lparr> al_name = ''United Airlines'', al_country = ''United States'',
                 al_founded = 1926, al_hub = ''Chicago O'' @ [CHR 0x27] @ ''Hare International Airport'',
                 al_fleet_size = ''800+'', al_destinations = ''340+'' \<rparr>),
      (''LH'', \<lparr> al_name = ''Lufthansa'', al_country = ''Germany'',
                 al_founded = 1953, al_hub = ''Frankfurt Airport'',
                 al_fleet_size = ''300+'', al_destinations = ''220+'' \<rparr>)]"

text \<open>\<open>/^[A-Za-z]{2,3}$/\<close>\<close>

definition matches_airline_code :: "string \<Rightarrow> bool" where
  "matches_airline_code s = ((length s = 2 \<or> length s = 3) \<and> list_all is_alpha s)"

fun validate_airline_code :: "jsval \<Rightarrow> error + string" where
  "validate_airline_code (JStr s) =
     (if s = [] then Inl (ValidationError ''Airline code is required'' ''airline_code'' (JStr s))
      else if \<not> matches_airline_code s then
        Inl (ValidationError ''Airline code must be 2-3 letters (e.g., AA, DL, UA)''
               ''airline_code'' (JStr s))
      else Inr (toUpperCase s))"
| "validate_airline_code v = Inl (ValidationError ''Airline code is required'' ''airline_code'' v)"

definition airline_text :: "string \<Rightarrow> airline_record \<Rightarrow> string" where
  "airline_text code a =
     ''Airline Information'' @ esc_nl @ esc_nl @
     ''Code: '' @ code @ esc_nl @
     ''Name: '' @ al_name a @ esc_nl @
     ''Country: '' @ al_country a @ esc_nl @
     ''Founded: '' @ show_int (al_founded a) @ esc_nl @
     ''Main Hub: '' @ al_hub a @ esc_nl @
     ''Fleet Size: '' @ al_fleet_size a @ esc_nl @
     ''Destinations: '' @ al_destinations a"

definition getAirlineInfo :: "(string \<times> jsval) list \<Rightarrow> error + payload" where
  "getAirlineInfo args =
     (case validate_airline_code (property args ''airline_code'') of
        Inl e \<Rightarrow> Inl e
      | Inr code \<Rightarrow>
          (case map_of mockAirlines code of
             None \<Rightarrow>
               Inl (FlightAPIError (''Airline information not found for code: '' @ code)
                      FLIGHT_NOT_FOUND [(''airline_code'', JStr code)])
           | Some a \<Rightarrow> Inr (TextContent (airline_text code a))))"

subsection \<open>The handler of tool calls\<close>

text \<open>
  \<^verbatim>\<open>try { switch (request.params.name) {\<close>
  \<^verbatim>\<open>    case "search_flights": return await this.searchFlights(request.params.arguments);\<close>
  \<^verbatim>\<open>    case "get_airport_info": return await this.getAirportInfo(request.params.arguments);\<close>
  \<^verbatim>\<open>    case "get_flight_status": return await this.getFlightStatus(request.params.arguments);\<close>
  \<^verbatim>\<open>    case "get_airline_info": return await this.getAirlineInfo(request.params.arguments);\<close>
  \<^verbatim>\<open>    default: throw new FlightAPIError(`Unknown tool: ${request.params.name}`, errorCodes.GENERAL_ERROR);\<close>
  \<^verbatim>\<open>} } catch (error) { return formatError(error); }\<close>
  The arguments of a request are an object or missing; reading a property of missing
  arguments throws a \<open>TypeError\<close>.
\<close>

definition run_tool ::
  "'raw world \<Rightarrow> string \<Rightarrow> (string \<times> jsval) list option \<Rightarrow> (error + payload) \<times> backend_call list" where
  "run_tool w name arguments =
     (if name = ''search_flights'' then
        (case arguments of
           None \<Rightarrow> (Inl (OtherError (''Cannot read properties of undefined (reading '' @ [CHR 0x27] @ ''origin'' @ [CHR 0x27] @ '')'')), [])
         | Some args \<Rightarrow> searchFlights w args)
      else if name = ''get_airport_info'' then
        (case arguments of
           None \<Rightarrow> (Inl (OtherError (''Cannot read properties of undefined (reading '' @ [CHR 0x27] @ ''airport_code'' @ [CHR 0x27] @ '')'')), [])
         | Some args \<Rightarrow> getAirportInfo w args)
      else if name = ''get_flight_status'' then
        (case arguments of
           None \<Rightarrow> (Inl (OtherError (''Cannot read properties of undefined (reading '' @ [CHR 0x27] @ ''flight_number'' @ [CHR 0x27] @ '')'')), [])
         | Some args \<Rightarrow> (getFlightStatus w args, []))
      else if name = ''get_airline_info'' then
        (case arguments of
           None \<Rightarrow> (Inl (OtherError (''Cannot read properties of undefined (reading '' @ [CHR 0x27] @ ''airline_code'' @ [CHR 0x27] @ '')'')), [])
         | Some args \<Rightarrow> (getAirlineInfo args, []))
      else (Inl (FlightAPIError (''Unknown tool: '' @ name) GENERAL_ERROR []), []))"

text \<open>The handler: the result is \<open>Inr\<close> of the payload it returns, or \<open>Inl\<close> of the
  exception that leaves it.\<close>

definition callTool :: "'raw world \<Rightarrow> string \<Rightarrow> (string \<times> jsval) list option \<Rightarrow> error + payload" where
  "callTool w name arguments =
     (case fst (run_tool w name arguments) of
        Inr p \<Rightarrow> Inr p
      | Inl e \<Rightarrow> formatError e)"

section \<open>Predicates used in the statements\<close>

text \<open>A result that is a failure of the domain kind InvalidAirportCode, that is a
  \<open>FlightAPIError\<close> whose code is \<open>INVALID_AIRPORT_CODE\<close>.\<close>

definition fails_with_InvalidAirportCode :: "error + string \<Rightarrow> bool" where
  "fails_with_InvalidAirportCode r =
     (case r of Inl (FlightAPIError m c d) \<Rightarrow> c = INVALID_AIRPORT_CODE | _ \<Rightarrow> False)"

text \<open>The day number of the local calendar date at the instant \<open>t\<close>, and the
  current local date.\<close>

definition local_day :: "host \<Rightarrow> int \<Rightarrow> int" where
  "local_day h t = (t + tz_minutes h * 60000) div ms_per_day"

definition today :: "host \<Rightarrow> int" where
  "today h = local_day h (now_ms h)"

text \<open>A string of the form \<open>YYYY-MM-DD\<close> that names a day of the calendar, and the day
  number of the date that a string of the form names.\<close>

definition leap_year :: "int \<Rightarrow> bool" where
  "leap_year y = (y mod 4 = 0 \<and> (y mod 100 \<noteq> 0 \<or> y mod 400 = 0))"

definition days_in_month :: "int \<Rightarrow> int \<Rightarrow> int" where
  "days_in_month y m =
     (if m = 2 then (if leap_year y then 29 else 28)
      else if m = 4 \<or> m = 6 \<or> m = 9 \<or> m = 11 then 30 else 31)"

definition calendar_date :: "string \<Rightarrow> bool" where
  "calendar_date s =
     (case date_fields s of
        None \<Rightarrow> False
      | Some (y, m, d) \<Rightarrow> 1 \<le> m \<and> m \<le> 12 \<and> 1 \<le> d \<and> d \<le> days_in_month y m)"

definition date_day :: "string \<Rightarrow> int" where
  "date_day s = (case date_fields s of None \<Rightarrow> 0 | Some (y, m, d) \<Rightarrow> days_from_civil y m d)"

text \<open>Among the \<open>n\<close> equally spaced draws \<open>0/n, 1/n, ..., (n-1)/n\<close>, the number of
  those for which the generator picks one stop.\<close>

definition one_stop_count :: "nat \<Rightarrow> nat" where
  "one_stop_count n = length (filter (\<lambda>k. mock_stops (of_nat k / of_nat n) = 1) [0..<n])"

text \<open>\<open>/^[A-Z]{2}\d{4}$/\<close>, the pattern of the claim on synthetic flight numbers, and
  \<open>/^[A-Z][A-Z0-9]\d{4}$/\<close>.\<close>

definition two_letters_four_digits :: "string \<Rightarrow> bool" where
  "two_letters_four_digits s =
     (length s = 6 \<and> list_all is_upper (take 2 s) \<and> list_all is_digit (drop 2 s))"

definition letter_alnum_four_digits :: "string \<Rightarrow> bool" where
  "letter_alnum_four_digits s =
     (length s = 6 \<and> is_upper (s ! 0) \<and> (is_upper (s ! 1) \<or> is_digit (s ! 1)) \<and>
      list_all is_digit (drop 2 s))"

text \<open>A result text, as a list of lines, has a field with the given label when a line
  starts with the label, a colon and a space.\<close>

definition has_field :: "string \<Rightarrow> string list \<Rightarrow> bool" where
  "has_field label ls = list_ex (\<lambda>l. prefix (label @ '': '') l) ls"

text \<open>A text that holds a line feed character.\<close>

definition has_newline :: "string \<Rightarrow> bool" where
  "has_newline t = (newline \<in> set t)"

definition payload_text :: "error + payload \<Rightarrow> string option" where
  "payload_text r = (case r of Inl e \<Rightarrow> None | Inr (TextContent t) \<Rightarrow> Some t)"

text \<open>
  Concrete environments for the examples. The clock of both stands at 2025-06-10,
  15:00 UTC. \<open>host_utc\<close> keeps UTC; \<open>host_west\<close> is five hours behind UTC, where it
  is 10:00 on the same day. The example world is in Fallback mode (its provider is
  never asked) and every draw of its random source is the double 7/8.
\<close>

definition host_utc :: host where
  "host_utc = \<lparr> now_ms = 1749567600000, tz_minutes = 0 \<rparr>"

definition host_west :: host where
  "host_west = \<lparr> now_ms = 1749567600000, tz_minutes = - 300 \<rparr>"

definition fallback_world :: "unit world" where
  "fallback_world =
     \<lparr> useRealAPI = False, clock = host_utc, random = (\<lambda>k. 7 / 8),
       flightOffersSearch_get = (\<lambda>q. Resolved None),
       formatFlightOffers = (\<lambda>offers. Inr []),
       locations_get = (\<lambda>code. Resolved None) \<rparr>"

text \<open>Arguments of a one-way search from LAX to JFK on 2025-06-11, the day after
  the clock's date, with the empty string as travel class.\<close>

definition args_empty_class :: "(string \<times> jsval) list" where
  "args_empty_class =
     [(''origin'', JStr ''lax''), (''destination'', JStr ''JFK''),
      (''departure_date'', JStr ''2025-06-11''), (''travel_class'', JStr [])]"

text \<open>
  Rejections of the provider's library for the examples: the provider answers with the
  HTTP status 400 and a structured error of code 38189; the provider answers with the
  HTTP status 429; the connection is refused, so that no response arrives.
\<close>

definition rejection_bad_location :: response_error where
  "rejection_bad_location =
     \<lparr> error_class = ClientError,
       error_response =
         \<lparr> statusCode = Some 400,
           result_errors = [\<lparr> api_code = JNum 38189, api_detail = Some ''no such location'' \<rparr>] \<rparr> \<rparr>"

definition rejection_rate_limit :: response_error where
  "rejection_rate_limit =
     \<lparr> error_class = ClientError,
       error_response = \<lparr> statusCode = Some 429, result_errors = [] \<rparr> \<rparr>"

definition rejection_refused :: response_error where
  "rejection_refused =
     \<lparr> error_class = NetworkError,
       error_response = \<lparr> statusCode = None, result_errors = [] \<rparr> \<rparr>"

definition example_params :: search_params where
  "example_params =
     \<lparr> sp_origin = ''LAX'', sp_destination = ''JFK'', sp_departure_date = ''2025-06-11'',
       sp_return_date = None, sp_adults = 1, sp_travel_class = ''economy'' \<rparr>"

text \<open>A world in Provider mode whose provider answers every flight search with the
  HTTP status 429.\<close>

definition rate_limited_world :: "unit world" where
  "rate_limited_world =
     fallback_world \<lparr> useRealAPI := True,
                      flightOffersSearch_get := (\<lambda>q. Rejected rejection_rate_limit) \<rparr>"

text \<open>Arguments of a search from LAX to LAX that leaves on 2025-06-11 and returns on the
  same day: every argument is valid by itself.\<close>

definition args_same_airport_same_day :: "(string \<times> jsval) list" where
  "args_same_airport_same_day =
     [(''origin'', JStr ''LAX''), (''destination'', JStr ''lax''),
      (''departure_date'', JStr ''2025-06-11''), (''return_date'', JStr ''2025-06-11'')]"

definition args_same_airport :: "(string \<times> jsval) list" where
  "args_same_airport =
     [(''origin'', JStr ''LAX''), (''destination'', JStr ''lax''),
      (''departure_date'', JStr ''2025-06-11''), (''return_date'', JStr ''2025-06-12'')]"

definition args_early_return :: "(string \<times> jsval) list" where
  "args_early_return =
     [(''origin'', JStr ''LAX''), (''destination'', JStr ''JFK''),
      (''departure_date'', JStr ''2025-06-12''), (''return_date'', JStr ''2025-06-11'')]"

text \<open>The field that a validation error names.\<close>

definition error_field :: "error + payload \<Rightarrow> string option" where
  "error_field r = (case r of Inl (ValidationError m f v) \<Rightarrow> Some f | _ \<Rightarrow> None)"

text \<open>A status request for flight AA123 on 2025-06-11, and a world like
  \<open>fallback_world\<close> whose draws are all 1/4, so that the status drawn is
  \<open>Delayed\<close> (with the draws 7/8 of \<open>fallback_world\<close> it is \<open>Cancelled\<close>).\<close>

definition args_status :: "(string \<times> jsval) list" where
  "args_status = [(''flight_number'', JStr ''aa123''), (''date'', JStr ''2025-06-11'')]"

definition delayed_world :: "unit world" where
  "delayed_world = fallback_world \<lparr> random := (\<lambda>k. 1 / 4) \<rparr>"

text \<open>Arguments of a one-way search from LAX to JFK on 2025-06-11 with the defaults for
  the passenger count and the travel class; the same search for no passenger; and a
  search from LAX to JFK that leaves on 2025-06-11 and returns on 2025-06-14.\<close>

definition args_one_way :: "(string \<times> jsval) list" where
  "args_one_way =
     [(''origin'', JStr ''LAX''), (''destination'', JStr ''JFK''),
      (''departure_date'', JStr ''2025-06-11'')]"

definition args_zero_adults :: "(string \<times> jsval) list" where
  "args_zero_adults =
     [(''origin'', JStr ''LAX''), (''destination'', JStr ''JFK''),
      (''departure_date'', JStr ''2025-06-11''), (''adults'', JNum 0)]"

definition args_round_trip :: "(string \<times> jsval) list" where
  "args_round_trip =
     [(''origin'', JStr ''LAX''), (''destination'', JStr ''JFK''),
      (''departure_date'', JStr ''2025-06-11''), (''return_date'', JStr ''2025-06-14'')]"

text \<open>Arguments of a search whose origin is the object \<open>{"toString": 1}\<close>, as the
  request \<open>{"origin": {"toString": 1}, "destination": "JFK", "departure_date":
  "2025-06-11"}\<close> has it.\<close>

definition args_unprintable_origin :: "(string \<times> jsval) list" where
  "args_unprintable_origin =
     [(''origin'', JObj [(''toString'', JNum 1)]), (''destination'', JStr ''JFK''),
      (''departure_date'', JStr ''2025-06-11'')]"

section \<open>Properties\<close>

subsection \<open>Auxiliary facts on strings\<close>

lemma upper_char_lower: "is_lower c \<Longrightarrow> is_upper (upper_char c)"
  by (auto simp: is_lower_def is_upper_def upper_char_def)

lemma upper_char_upper: "is_upper c \<Longrightarrow> upper_char c = c"
  by (auto simp: is_lower_def is_upper_def upper_char_def)

lemma upper_char_alpha: "is_alpha c \<Longrightarrow> is_upper (upper_char c)"
  using upper_char_lower upper_char_upper by (auto simp: is_alpha_def)

lemma toUpperCase_alpha: "list_all is_alpha s \<Longrightarrow> list_all is_upper (toUpperCase s)"
  by (induction s) (auto simp: toUpperCase_def upper_char_alpha)

lemma length_toUpperCase: "length (toUpperCase s) = length s"
  by (simp add: toUpperCase_def)

subsection \<open>Rounding to a double\<close>

text \<open>\<open>pow2\<close> is the power of two, and \<open>ilog2\<close> the binary exponent.\<close>

lemma pow2_eq: "pow2 e = 2 powi e"
proof (induction e rule: pow2.induct)
  case (1 e)
  show ?case
  proof (cases "e = 0")
    case True
    then show ?thesis by (subst pow2.simps) simp
  next
    case False
    show ?thesis
    proof (cases "0 < e")
      case True
      then have "pow2 e = 2 * pow2 (e - 1)" by (subst pow2.simps) simp
      also have "\<dots> = 2 * 2 powi (e - 1)" using 1(1) False True by simp
      also have "\<dots> = 2 powi e" by (simp add: power_int_diff)
      finally show ?thesis .
    next
      case neg: False
      with False have "pow2 e = pow2 (e + 1) / 2" by (subst pow2.simps) simp
      also have "\<dots> = 2 powi (e + 1) / 2" using 1(2) False neg by simp
      also have "\<dots> = 2 powi e" by (simp add: power_int_add)
      finally show ?thesis .
    qed
  qed
qed

lemma ilog2_int_spec:
  "1 \<le> n \<Longrightarrow> 0 \<le> ilog2_int n \<and> 2 ^ nat (ilog2_int n) \<le> n \<and> n < 2 * 2 ^ nat (ilog2_int n)"
proof (induction n rule: ilog2_int.induct)
  case (1 n)
  show ?case
  proof (cases "n < 2")
    case True
    with 1(2) have "n = 1" by simp
    moreover have "ilog2_int 1 = 0" by (subst ilog2_int.simps) simp
    ultimately show ?thesis by simp
  next
    case False
    then have h: "1 \<le> n div 2" by simp
    from 1(1) [OF False h] have ih: "0 \<le> ilog2_int (n div 2)"
      "2 ^ nat (ilog2_int (n div 2)) \<le> n div 2" "n div 2 < 2 * 2 ^ nat (ilog2_int (n div 2))"
      by simp_all
    have e: "ilog2_int n = 1 + ilog2_int (n div 2)" using False by (subst ilog2_int.simps) simp
    have p: "(2::int) ^ nat (1 + ilog2_int (n div 2)) = 2 * 2 ^ nat (ilog2_int (n div 2))"
      using ih(1) by (simp add: nat_add_distrib)
    from ih(2) have "2 * 2 ^ nat (ilog2_int (n div 2)) \<le> n" by linarith
    moreover from ih(3) have "n < 2 * (2 * 2 ^ nat (ilog2_int (n div 2)))" by linarith
    ultimately show ?thesis using ih(1) by (simp add: e p)
  qed
qed

lemma ilog2_int_powi:
  assumes "1 \<le> n"
  shows "2 powi (ilog2_int n) \<le> (of_int n :: rat)" and "(of_int n :: rat) + 1 \<le> 2 powi (ilog2_int n + 1)"
    and "0 \<le> ilog2_int n"
proof -
  from ilog2_int_spec [OF assms] have s: "0 \<le> ilog2_int n" "2 ^ nat (ilog2_int n) \<le> n"
    "n + 1 \<le> 2 * 2 ^ nat (ilog2_int n)" by simp_all
  show "0 \<le> ilog2_int n" by (rule s(1))
  have "(2::rat) powi (ilog2_int n) = of_int (2 ^ nat (ilog2_int n))"
    using s(1) by (simp add: power_int_def)
  also have "\<dots> \<le> of_int n" using s(2) by (simp only: of_int_le_iff)
  finally show "2 powi (ilog2_int n) \<le> (of_int n :: rat)" .
  have "(of_int n :: rat) + 1 = of_int (n + 1)" by simp
  also have "\<dots> \<le> of_int (2 * 2 ^ nat (ilog2_int n))" using s(3) by (simp only: of_int_le_iff)
  also have "\<dots> = 2 powi (ilog2_int n + 1)"
    using s(1) by (simp add: power_int_def nat_add_distrib)
  finally show "(of_int n :: rat) + 1 \<le> 2 powi (ilog2_int n + 1)" .
qed

lemma ilog2_spec:
  assumes "0 < x"
  shows "2 powi (ilog2 x) \<le> x \<and> x < 2 powi (ilog2 x + 1)"
proof (cases "1 \<le> x")
  case True
  then have n: "1 \<le> \<lfloor>x\<rfloor>" by simp
  have e: "ilog2 x = ilog2_int \<lfloor>x\<rfloor>" using True by (simp add: ilog2_def)
  have "2 powi (ilog2_int \<lfloor>x\<rfloor>) \<le> (of_int \<lfloor>x\<rfloor> :: rat)" using n by (rule ilog2_int_powi)
  also have "\<dots> \<le> x" by simp
  finally have lo: "2 powi (ilog2 x) \<le> x" by (simp add: e)
  have "x < of_int \<lfloor>x\<rfloor> + 1" by linarith
  also have "\<dots> \<le> 2 powi (ilog2_int \<lfloor>x\<rfloor> + 1)" using n by (rule ilog2_int_powi)
  finally have "x < 2 powi (ilog2 x + 1)" by (simp add: e)
  with lo show ?thesis by simp
next
  case False
  then have x1: "x < 1" by simp
  let ?m = "\<lfloor>1 / x\<rfloor>"
  let ?l = "ilog2_int ?m"
  have inv: "1 < 1 / x" using assms x1 by simp
  then have m: "1 \<le> ?m" by simp
  have a: "2 powi ?l \<le> (of_int ?m :: rat)" using m by (rule ilog2_int_powi)
  have b: "(of_int ?m :: rat) + 1 \<le> 2 powi (?l + 1)" using m by (rule ilog2_int_powi)
  have "2 powi ?l \<le> 1 / x" using a by linarith
  then have up: "x * 2 powi ?l \<le> 1" using assms by (simp add: field_simps)
  have "1 / x < of_int ?m + 1" by linarith
  then have "1 / x < 2 powi (?l + 1)" using b by linarith
  then have lo: "1 < x * 2 powi (?l + 1)" using assms by (simp add: field_simps)
  have p: "(2::rat) powi (- ?l) * 2 powi ?l = 1" "(2::rat) powi (- ?l - 1) * 2 powi (?l + 1) = 1"
    by (simp_all flip: power_int_add)
  show ?thesis
  proof (cases "x * pow2 ?l = 1")
    case True
    then have e: "ilog2 x = - ?l" using False by (simp add: ilog2_def Let_def)
    from True have "x * 2 powi ?l = 1" by (simp add: pow2_eq)
    then have xe: "x = 2 powi (- ?l)" by (simp add: power_int_minus field_simps)
    have "(2::rat) powi (- ?l) < 2 powi (- ?l + 1)" by (rule power_int_strict_increasing) simp_all
    with xe show ?thesis by (simp add: e)
  next
    case ne: False
    then have e: "ilog2 x = - ?l - 1" using False by (simp add: ilog2_def Let_def)
    from ne up have "x * 2 powi ?l < 1" by (simp add: pow2_eq)
    then have hi: "x < 2 powi (- ?l)" by (simp add: power_int_minus field_simps)
    from lo have "2 powi (- ?l - 1) < x"
      by (simp add: power_int_minus power_int_diff power_int_add field_simps)
    with hi show ?thesis by (simp add: e)
  qed
qed

lemma ilog2_unique:
  assumes "0 < x" and "2 powi e \<le> x" and "x < 2 powi (e + 1)"
  shows "ilog2 x = e"
proof (rule ccontr)
  assume ne: "ilog2 x \<noteq> e"
  from ilog2_spec [OF assms(1)] have s: "2 powi (ilog2 x) \<le> x" "x < 2 powi (ilog2 x + 1)" by simp_all
  show False
  proof (cases "ilog2 x < e")
    case True
    then have "(2::rat) powi (ilog2 x + 1) \<le> 2 powi e" by (intro power_int_increasing) simp_all
    with s(2) assms(2) show False by linarith
  next
    case False
    with ne have "e + 1 \<le> ilog2 x" by simp
    then have "(2::rat) powi (e + 1) \<le> 2 powi (ilog2 x)" by (intro power_int_increasing) simp_all
    with s(1) assms(3) show False by linarith
  qed
qed

lemma ilog2_mono:
  assumes "0 < x" and "x \<le> y"
  shows "ilog2 x \<le> ilog2 y"
proof (rule ccontr)
  assume "\<not> ilog2 x \<le> ilog2 y"
  then have "ilog2 y + 1 \<le> ilog2 x" by simp
  then have "(2::rat) powi (ilog2 y + 1) \<le> 2 powi (ilog2 x)" by (intro power_int_increasing) simp_all
  moreover have "2 powi (ilog2 x) \<le> x" using ilog2_spec [OF assms(1)] by simp
  moreover have "y < 2 powi (ilog2 y + 1)" using ilog2_spec [of y] assms by simp
  ultimately show False using assms(2) by linarith
qed

lemma round_half_even_int [simp]: "round_half_even (of_int n) = n"
  by (simp add: round_half_even_def)

lemma round_half_even_range: "\<lfloor>y\<rfloor> \<le> round_half_even y \<and> round_half_even y \<le> \<lfloor>y\<rfloor> + 1"
  by (simp add: round_half_even_def)

lemma round_half_even_mono:
  assumes "x \<le> y"
  shows "round_half_even x \<le> round_half_even y"
proof (cases "\<lfloor>x\<rfloor> < \<lfloor>y\<rfloor>")
  case True
  then show ?thesis using round_half_even_range [of x] round_half_even_range [of y] by linarith
next
  case False
  moreover have "\<lfloor>x\<rfloor> \<le> \<lfloor>y\<rfloor>" using assms by (rule floor_mono)
  ultimately have eq: "\<lfloor>x\<rfloor> = \<lfloor>y\<rfloor>" by simp
  then have "x - of_int \<lfloor>x\<rfloor> \<le> y - of_int \<lfloor>y\<rfloor>" using assms by simp
  then show ?thesis unfolding round_half_even_def eq by auto
qed


lemma ulp_pos [simp]: "0 < ulp x"
  by (simp add: ulp_def pow2_eq)

lemma ulp_nonneg [simp]: "0 \<le> ulp x"
  using ulp_pos [of x] by (rule less_imp_le)

lemma powi_split: "(2::rat) powi (a + b) = 2 powi a * 2 powi b"
  by (simp add: power_int_add)

lemma powi_53: "(2::rat) powi (e + 1) = 2 powi 53 * 2 powi (e - 52)"
proof -
  have "e + 1 = 53 + (e - 52)" by simp
  then show ?thesis by (simp only: powi_split)
qed

lemma powi_52: "(2::rat) powi e = 2 powi 52 * 2 powi (e - 52)"
proof -
  have "e = 52 + (e - 52)" by simp
  then have "(2::rat) powi e = 2 powi (52 + (e - 52))" by simp
  then show ?thesis by (simp only: powi_split)
qed

lemma ulp_eq: "ulp x = 2 powi (max (ilog2 x) (- 1022) - 52)"
  by (simp add: ulp_def pow2_eq)

lemma to_double_pos: "0 < x \<Longrightarrow> to_double x = of_int (round_half_even (x / ulp x)) * ulp x"
  by (simp add: to_double_def)

lemma to_double_upper:
  assumes "0 < x"
  shows "to_double x \<le> 2 powi (max (ilog2 x) (- 1022) + 1)"
proof -
  let ?e = "max (ilog2 x) (- 1022)"
  have "x < 2 powi (ilog2 x + 1)" using ilog2_spec [OF assms] by simp
  also have "\<dots> \<le> 2 powi (?e + 1)" by (intro power_int_increasing) simp_all
  finally have "x < 2 powi (?e + 1)" .
  moreover have "(2::rat) powi (?e + 1) = 2 powi 53 * ulp x"
    unfolding ulp_eq by (rule powi_53)
  ultimately have "x < 2 powi 53 * ulp x" by simp
  then have "x / ulp x \<le> 2 powi 53" by (simp add: field_simps)
  then have "x / ulp x \<le> of_int (2 ^ 53)" by simp
  then have "round_half_even (x / ulp x) \<le> round_half_even (of_int (2 ^ 53))"
    by (rule round_half_even_mono)
  then have "round_half_even (x / ulp x) \<le> 2 ^ 53" by (simp only: round_half_even_int)
  then have "(of_int (round_half_even (x / ulp x)) :: rat) \<le> of_int (2 ^ 53)"
    by (simp only: of_int_le_iff)
  then have "of_int (round_half_even (x / ulp x)) * ulp x \<le> of_int (2 ^ 53) * ulp x"
    by (intro mult_right_mono) simp_all
  also have "\<dots> = 2 powi (?e + 1)" unfolding ulp_eq using powi_53 [of ?e] by simp
  finally show ?thesis by (simp add: to_double_pos assms)
qed

lemma to_double_lower:
  assumes "0 < x" and "- 1022 \<le> ilog2 x"
  shows "2 powi (ilog2 x) \<le> to_double x"
proof -
  have m: "max (ilog2 x) (- 1022) = ilog2 x" using assms(2) by simp
  have u: "ulp x = 2 powi (ilog2 x - 52)" by (simp add: ulp_eq m)
  have "(2::rat) powi (ilog2 x) = 2 powi 52 * ulp x" unfolding u by (rule powi_52)
  moreover have "2 powi (ilog2 x) \<le> x" using ilog2_spec [OF assms(1)] by simp
  ultimately have "2 powi 52 * ulp x \<le> x" by simp
  then have "2 powi 52 \<le> x / ulp x" by (simp add: field_simps)
  then have "of_int (2 ^ 52) \<le> x / ulp x" by simp
  then have "round_half_even (of_int (2 ^ 52)) \<le> round_half_even (x / ulp x)"
    by (rule round_half_even_mono)
  then have "2 ^ 52 \<le> round_half_even (x / ulp x)" by (simp only: round_half_even_int)
  then have "(of_int (2 ^ 52) :: rat) \<le> of_int (round_half_even (x / ulp x))"
    by (simp only: of_int_le_iff)
  then have A: "of_int (2 ^ 52) * ulp x \<le> of_int (round_half_even (x / ulp x)) * ulp x"
    by (intro mult_right_mono) simp_all
  have B: "of_int (2 ^ 52) * ulp x = 2 powi (ilog2 x)"
    unfolding u using powi_52 [of "ilog2 x"] by simp
  from A show ?thesis unfolding B to_double_pos [OF assms(1)] .
qed

lemma to_double_nonneg: "0 \<le> x \<Longrightarrow> 0 \<le> to_double x"
proof (cases "x = 0")
  case True
  then show ?thesis by (simp add: to_double_def)
next
  case False
  assume "0 \<le> x"
  with False have x: "0 < x" by simp
  then have "0 \<le> x / ulp x" by (simp add: less_imp_le)
  then have "round_half_even (of_int 0) \<le> round_half_even (x / ulp x)"
    by (intro round_half_even_mono) simp
  then have "0 \<le> round_half_even (x / ulp x)" by (simp only: round_half_even_int)
  then show ?thesis by (simp add: to_double_pos x)
qed

lemma to_double_mono:
  assumes "0 \<le> x" and "x \<le> y"
  shows "to_double x \<le> to_double y"
proof (cases "x = 0")
  case True
  then show ?thesis using assms to_double_nonneg [of y] by (simp add: to_double_def)
next
  case False
  with assms have x: "0 < x" and y: "0 < y" by simp_all
  let ?ex = "max (ilog2 x) (- 1022)" and ?ey = "max (ilog2 y) (- 1022)"
  have le: "ilog2 x \<le> ilog2 y" using x assms(2) by (rule ilog2_mono)
  show ?thesis
  proof (cases "?ex = ?ey")
    case True
    then have u: "ulp x = ulp y" by (simp add: ulp_eq)
    have "x / ulp y \<le> y / ulp y" using assms(2) by (intro divide_right_mono) simp_all
    then have "round_half_even (x / ulp y) \<le> round_half_even (y / ulp y)"
      by (rule round_half_even_mono)
    then have "(of_int (round_half_even (x / ulp y)) :: rat) \<le> of_int (round_half_even (y / ulp y))"
      by (simp only: of_int_le_iff)
    then have "of_int (round_half_even (x / ulp y)) * ulp y \<le> of_int (round_half_even (y / ulp y)) * ulp y"
      by (intro mult_right_mono) simp_all
    then show ?thesis by (simp add: to_double_pos x y u)
  next
    case False
    with le have lt: "?ex < ?ey" by auto
    then have n: "- 1022 \<le> ilog2 y" and ey: "?ey = ilog2 y" by auto
    have "to_double x \<le> 2 powi (?ex + 1)" using x by (rule to_double_upper)
    also have "\<dots> \<le> 2 powi (ilog2 y)"
    proof (intro power_int_increasing)
      have "?ex < ilog2 y" using lt unfolding ey .
      then show "?ex + 1 \<le> ilog2 y" by linarith
    qed simp
    also have "\<dots> \<le> to_double y" using y n by (rule to_double_lower)
    finally show ?thesis .
  qed
qed

lemma double_below_one:
  assumes "0 \<le> x" and "x < 1" and "to_double x = x"
  shows "x \<le> 1 - 1 / 2 ^ 53"
proof (rule ccontr)
  assume "\<not> x \<le> 1 - 1 / 2 ^ 53"
  then have gt: "1 - 1 / 2 ^ 53 < x" by simp
  then have x: "0 < x" and half: "1 / 2 \<le> x" by simp_all
  have "ilog2 x = - 1" using x half assms(2) by (intro ilog2_unique) simp_all
  then have u: "ulp x = 1 / 2 ^ 53" by (simp add: ulp_eq power_int_minus field_simps)
  let ?k = "round_half_even (x / ulp x)"
  have "of_int ?k * ulp x = x" using assms(3) x by (simp add: to_double_pos)
  then have k: "(of_int ?k :: rat) = x * 2 ^ 53" by (simp add: u field_simps)
  from gt have "(2 ^ 53 - 1 :: rat) < x * 2 ^ 53" by (simp add: field_simps)
  with k have "(of_int (2 ^ 53 - 1) :: rat) < of_int ?k" by simp
  then have a: "2 ^ 53 - 1 < ?k" by (simp only: of_int_less_iff)
  from assms(2) have "x * 2 ^ 53 < (2 ^ 53 :: rat)" by simp
  with k have "(of_int ?k :: rat) < of_int (2 ^ 53)" by simp
  then have "?k < 2 ^ 53" by (simp only: of_int_less_iff)
  with a show False by simp
qed

lemma scaled_draw:
  assumes "0 \<le> x" and "x < 1" and "to_double x = x" and "0 \<le> c"
  shows "0 \<le> to_double (x * c)" and "to_double (x * c) \<le> to_double ((1 - 1 / 2 ^ 53) * c)"
proof -
  have "0 \<le> x * c" using assms(1,4) by simp
  then show "0 \<le> to_double (x * c)" by (rule to_double_nonneg)
  have "x \<le> 1 - 1 / 2 ^ 53" using assms(1-3) by (rule double_below_one)
  then have "x * c \<le> (1 - 1 / 2 ^ 53) * c" using assms(4) by (rule mult_right_mono)
  with \<open>0 \<le> x * c\<close> show "to_double (x * c) \<le> to_double ((1 - 1 / 2 ^ 53) * c)"
    by (rule to_double_mono)
qed

lemma shifted_draw:
  assumes "0 \<le> x" and "x < 1" and "to_double x = x" and "0 \<le> c" and "0 \<le> d"
  shows "to_double d \<le> to_double (to_double (x * c) + d)"
    and "to_double (to_double (x * c) + d) \<le> to_double (to_double ((1 - 1 / 2 ^ 53) * c) + d)"
proof -
  note s = scaled_draw [OF assms(1-4)]
  have "d \<le> to_double (x * c) + d" using s(1) by simp
  with assms(5) show "to_double d \<le> to_double (to_double (x * c) + d)" by (rule to_double_mono)
  have "0 \<le> to_double (x * c) + d" using s(1) assms(5) by simp
  moreover have "to_double (x * c) + d \<le> to_double ((1 - 1 / 2 ^ 53) * c) + d" using s(2) by simp
  ultimately show "to_double (to_double (x * c) + d) \<le> to_double (to_double ((1 - 1 / 2 ^ 53) * c) + d)"
    by (rule to_double_mono)
qed

lemma draw_index:
  assumes "0 \<le> x" and "x < 1" and "to_double x = x"
    and "to_double ((1 - 1 / 2 ^ 53) * of_nat n) < of_nat n"
  shows "nat \<lfloor>to_double (x * of_nat n)\<rfloor> < n"
proof -
  note s = scaled_draw [OF assms(1-3), of "of_nat n"]
  have "to_double (x * of_nat n) < of_nat n" using s(2) assms(4) by simp
  then have "\<lfloor>to_double (x * of_nat n)\<rfloor> < int n" by (simp add: floor_less_iff)
  moreover have "0 \<le> \<lfloor>to_double (x * of_nat n)\<rfloor>" using s(1) by simp
  ultimately show ?thesis by linarith
qed

lemma to_double_1000: "to_double 1000 = 1000"
  by code_simp

lemma to_double_200: "to_double 200 = 200"
  by code_simp

lemma to_double_six_tenths: "to_double (6 / 10) = 5404319552844595 / 2 ^ 53"
  by code_simp

lemma double_grid:
  assumes "1 / 2 \<le> x" and "x < 1" and "to_double x = x"
  shows "\<exists>k::int. x = of_int k / 2 ^ 53"
proof -
  have x: "0 < x" using assms(1) by simp
  have "ilog2 x = - 1" using x assms(1,2) by (intro ilog2_unique) simp_all
  then have u: "ulp x = 1 / 2 ^ 53" by (simp add: ulp_eq power_int_minus field_simps)
  have "of_int (round_half_even (x / ulp x)) * ulp x = x" using assms(3) x by (simp add: to_double_pos)
  then have "x = of_int (round_half_even (x / ulp x)) / 2 ^ 53" by (simp add: u)
  then show ?thesis ..
qed

lemma greater_than_double_six_tenths:
  assumes "to_double x = x"
  shows "to_double (6 / 10) < x \<longleftrightarrow> 6 / 10 < x"
proof
  assume "6 / 10 < x"
  moreover have "to_double (6 / 10) < 6 / 10" unfolding to_double_six_tenths by simp
  ultimately show "to_double (6 / 10) < x" by simp
next
  assume a: "to_double (6 / 10) < x"
  show "6 / 10 < x"
  proof (cases "x < 1")
    case False
    then show ?thesis by simp
  next
    case True
    from a have lo: "5404319552844595 / 2 ^ 53 < x" unfolding to_double_six_tenths .
    then have "1 / 2 \<le> x" by simp
    from double_grid [OF this True assms] obtain k :: int where k: "x = of_int k / 2 ^ 53" ..
    from lo have "(of_int 5404319552844595 :: rat) < of_int k" unfolding k by (simp add: field_simps)
    then have "5404319552844595 < k" by (simp only: of_int_less_iff)
    then have "5404319552844596 \<le> k" by simp
    then have "(of_int 5404319552844596 :: rat) \<le> of_int k" by (simp only: of_int_le_iff)
    then have "5404319552844596 / 2 ^ 53 \<le> x" unfolding k by (simp add: field_simps)
    then show ?thesis by simp
  qed
qed

subsection \<open>Airport codes\<close>

text \<open>
  C5, as stated, fails: the claim has airport-code validation fail with the domain
  error kind InvalidAirportCode, but the validator throws a \<open>ValidationError\<close> for the
  field \<open>airport_code\<close>; the code \<open>INVALID_AIRPORT_CODE\<close> belongs to
  \<open>FlightAPIError\<close>, which the validator never throws. At the two-letter input
  \<open>LA\<close> the result is the validation error below and not an InvalidAirportCode failure.
\<close>

theorem validateAirportCode_not_InvalidAirportCode:
  "validateAirportCode (JStr ''LA'') =
     Inl (ValidationError ''Airport code must be 3 characters long'' ''airport_code'' (JStr ''LA''))
   \<and> \<not> fails_with_InvalidAirportCode (validateAirportCode (JStr ''LA''))"
  by (simp add: fails_with_InvalidAirportCode_def)

text \<open>
  C5, amended: a string of exactly three ASCII letters, in any case, is accepted and
  returned in upper case (three upper-case letters); a string of another length or with
  a character that is not a letter is rejected with a \<open>ValidationError\<close> naming the
  field \<open>airport_code\<close> and carrying the input; so is every input that is not a string.
\<close>

theorem validateAirportCode_spec:
  "(length s = 3 \<and> list_all is_alpha s \<longrightarrow>
      validateAirportCode (JStr s) = Inr (toUpperCase s) \<and>
      length (toUpperCase s) = 3 \<and> list_all is_upper (toUpperCase s))
   \<and> (length s \<noteq> 3 \<or> \<not> list_all is_alpha s \<longrightarrow>
      (\<exists>msg. validateAirportCode (JStr s) = Inl (ValidationError msg ''airport_code'' (JStr s))))
   \<and> ((\<forall>t. v \<noteq> JStr t) \<longrightarrow>
      validateAirportCode v = Inl (ValidationError ''Airport code is required'' ''airport_code'' v))"
proof (intro conjI impI)
  assume a: "length s = 3 \<and> list_all is_alpha s"
  then have "s \<noteq> []" by auto
  with a show "validateAirportCode (JStr s) = Inr (toUpperCase s)"
    by (simp add: matches_alpha3_def)
  from a show "length (toUpperCase s) = 3" by (simp add: length_toUpperCase)
  from a show "list_all is_upper (toUpperCase s)" by (simp add: toUpperCase_alpha)
next
  assume "length s \<noteq> 3 \<or> \<not> list_all is_alpha s"
  then show "\<exists>msg. validateAirportCode (JStr s) = Inl (ValidationError msg ''airport_code'' (JStr s))"
    by (auto simp: matches_alpha3_def)
next
  assume "\<forall>t. v \<noteq> JStr t"
  then show "validateAirportCode v = Inl (ValidationError ''Airport code is required'' ''airport_code'' v)"
    by (cases v) auto
qed

theorem validateAirportCode_spec_witness:
  "validateAirportCode (JStr ''lax'') = Inr ''LAX''
   \<and> (\<exists>msg. validateAirportCode (JStr ''L4X'') = Inl (ValidationError msg ''airport_code'' (JStr ''L4X'')))
   \<and> validateAirportCode (JNum 7) = Inl (ValidationError ''Airport code is required'' ''airport_code'' (JNum 7))"
proof -
  have u: "toUpperCase ''lax'' = ''LAX''" by code_simp
  have h1: "length ''lax'' = 3 \<and> list_all is_alpha ''lax''" by code_simp
  have h2: "length ''L4X'' \<noteq> 3 \<or> \<not> list_all is_alpha ''L4X''" by code_simp
  have h3: "\<forall>t. JNum 7 \<noteq> JStr t" by simp
  from validateAirportCode_spec [of "''lax''" "JNum 7"] h1 u h3
    validateAirportCode_spec [of "''L4X''" "JNum 7"] h2
  show ?thesis by metis
qed

subsection \<open>Dates\<close>

lemma setHours0_less: "setHours0 h t < setHours0 h u \<longleftrightarrow> local_day h t < local_day h u"
  by (simp add: setHours0_def local_day_def ms_per_day_def)

lemma date_fields_nonempty: "date_fields s \<noteq> None \<Longrightarrow> s \<noteq> []"
  by auto

lemma Date_parse_date_day:
  "Date_parse s = Some t \<Longrightarrow> t = date_day s * ms_per_day"
  by (auto simp: Date_parse_def date_day_def split: option.splits if_splits)

lemma calendar_date_parse:
  "calendar_date s \<Longrightarrow> Date_parse s = Some (date_day s * ms_per_day)"
  by (auto simp: Date_parse_def date_day_def calendar_date_def days_in_month_def
      split: option.splits if_splits)

lemma local_day_upper: "tz_minutes h < 1440 \<Longrightarrow> local_day h (d * ms_per_day) \<le> d"
proof -
  assume a: "tz_minutes h < 1440"
  have "d * ms_per_day + tz_minutes h * 60000 < (d + 1) * ms_per_day"
    using a by (simp add: ms_per_day_def algebra_simps)
  then have "(d * ms_per_day + tz_minutes h * 60000) div ms_per_day < d + 1"
    by (simp add: ms_per_day_def div_less_iff_less_mult algebra_simps)
  then show ?thesis by (simp add: local_day_def)
qed

lemma local_day_lower: "0 \<le> tz_minutes h \<Longrightarrow> d \<le> local_day h (d * ms_per_day)"
proof -
  assume a: "0 \<le> tz_minutes h"
  have "d * ms_per_day \<le> d * ms_per_day + tz_minutes h * 60000"
    using a by simp
  then have "(d * ms_per_day) div ms_per_day \<le> (d * ms_per_day + tz_minutes h * 60000) div ms_per_day"
    by (intro zdiv_mono1) (auto simp: ms_per_day_def)
  then show ?thesis by (simp add: local_day_def ms_per_day_def)
qed

text \<open>The parts of the claim on dates that hold on every host: a string that does not
  match the pattern, and an input that is not a string, are rejected.\<close>

lemma validateDate_malformed:
  "date_fields s = None \<Longrightarrow> \<exists>msg. validateDate h (JStr s) f = Inl (ValidationError msg f (JStr s))"
  by simp

lemma validateDate_not_string:
  "\<forall>s. v \<noteq> JStr s \<Longrightarrow> validateDate h v f = Inl (ValidationError (f @ '' is required'') f v)"
  by (cases v) auto

text \<open>A date strictly before the current local date is rejected (on every host whose
  offset from UTC is below a day).\<close>

lemma validateDate_past:
  assumes "tz_minutes h < 1440" and "date_day s < today h"
  shows "\<exists>msg. validateDate h (JStr s) f = Inl (ValidationError msg f (JStr s))"
proof (cases "Date_parse s")
  case None
  then show ?thesis by (simp split: option.splits)
next
  case (Some t)
  then have t: "t = date_day s * ms_per_day" by (rule Date_parse_date_day)
  have "local_day h t \<le> date_day s" unfolding t using assms(1) by (rule local_day_upper)
  with assms(2) have "local_day h t < local_day h (now_ms h)" by (simp add: today_def)
  then have "setHours0 h t < setHours0 h (now_ms h)" by (simp add: setHours0_less)
  with Some show ?thesis by (simp split: option.splits)
qed

text \<open>On a host at UTC or east of it, today's date and every later calendar date is
  accepted and returned unchanged.\<close>

lemma validateDate_today_or_future:
  assumes "0 \<le> tz_minutes h" and "calendar_date s" and "today h \<le> date_day s"
  shows "validateDate h (JStr s) f = Inr s"
proof -
  have p: "Date_parse s = Some (date_day s * ms_per_day)" using assms(2) by (rule calendar_date_parse)
  have df: "date_fields s \<noteq> None"
    using assms(2) by (auto simp: calendar_date_def split: option.splits)
  then have ne: "s \<noteq> []" by (rule date_fields_nonempty)
  have "date_day s \<le> local_day h (date_day s * ms_per_day)" using assms(1) by (rule local_day_lower)
  with assms(3) have "\<not> local_day h (date_day s * ms_per_day) < local_day h (now_ms h)"
    by (simp add: today_def)
  then have "\<not> setHours0 h (date_day s * ms_per_day) < setHours0 h (now_ms h)"
    by (simp add: setHours0_less)
  with p df ne show ?thesis by simp
qed

text \<open>
  C3: date validation is to accept today's date (the comment in the source says
  ``allow today''). On a host west of UTC it does not: the date-only string is parsed
  as UTC midnight, which is still the previous day in local time, and
  \<open>setHours(0, 0, 0, 0)\<close> moves it to the local midnight of that previous day, before
  the local midnight of today. On \<open>host_west\<close> (2025-06-10, 10:00 local time, five
  hours behind UTC) the calendar date 2025-06-10 is the current local date and is
  rejected as being in the past.
\<close>

theorem validateDate_rejects_today_west_of_UTC:
  "calendar_date ''2025-06-10'' \<and> date_day ''2025-06-10'' = today host_west
   \<and> validateDate host_west (JStr ''2025-06-10'') ''date'' =
       Inl (ValidationError ''date cannot be in the past'' ''date'' (JStr ''2025-06-10''))"
  by code_simp

text \<open>
  A string of the form that names no day of the calendar is not always rejected either:
  the runtime reads a day number up to 31 in every month and carries the excess into the
  next month, so that the 31st of February is accepted on every host.
\<close>

lemma validateDate_accepts_31_February:
  "\<not> calendar_date ''2026-02-31''
   \<and> validateDate host_utc (JStr ''2026-02-31'') ''date'' = Inr ''2026-02-31''
   \<and> validateDate host_west (JStr ''2026-02-31'') ''date'' = Inr ''2026-02-31''"
  by code_simp

subsection \<open>The synthetic flight generator: shape of the result\<close>

lemma mock_loop_unfold:
  "mock_loop r a b c n tc 0 0 [] =
     [mock_flight r 0 a b c n tc, mock_flight r 10 a b c n tc, mock_flight r 20 a b c n tc,
      mock_flight r 30 a b c n tc, mock_flight r 40 a b c n tc]"
  by (simp add: mock_loop.simps)

lemma set_generateMockFlights:
  "set (generateMockFlights r a b c rd n tc) = (\<lambda>i. mock_flight r (10 * i) a b c n tc) ` {0..<5}"
proof -
  have "{0..<5::nat} = {0, 1, 2, 3, 4}" by auto
  moreover have "set (generateMockFlights r a b c rd n tc) = set (mock_loop r a b c n tc 0 0 [])"
    by (simp only: generateMockFlights_def set_sort)
  ultimately show ?thesis
    by (simp add: mock_loop_unfold)
qed

lemma length_generateMockFlights: "length (generateMockFlights r a b c rd n tc) = 5"
proof -
  have "length (generateMockFlights r a b c rd n tc) = length (mock_loop r a b c n tc 0 0 [])"
    by (simp only: generateMockFlights_def length_sort)
  then show ?thesis by (simp add: mock_loop_unfold)
qed

lemma sorted_generateMockFlights: "sorted (map price_amount (generateMockFlights r a b c rd n tc))"
  by (simp only: generateMockFlights_def sorted_sort_key)

lemma travel_class_mock: "travel_class (mock_flight r p a b c n tc) = tc"
  by (simp add: mock_flight_def Let_def)

subsection \<open>Travel class\<close>

lemma property_Cons: "property ((k, v) # args) k' = (if k' = k then v else property args k')"
  by (simp add: property_def)

lemma validateTravelClass_falsy: "\<not> truthy tc \<Longrightarrow> validateTravelClass tc = Inr ''economy''"
  by (cases tc) (auto simp: validateTravelClass_def)

lemma validateTravelClass_economy: "validateTravelClass (JStr ''economy'') = Inr ''economy''"
  by (simp add: validateTravelClass_def validClasses_def)

lemma validate_search_falsy_class:
  "\<not> truthy (property args ''travel_class'') \<Longrightarrow>
     validate_search h ((''travel_class'', JStr ''economy'') # args) = validate_search h args"
  by (simp add: validate_search_def property_Cons validateTravelClass_falsy validateTravelClass_economy
      cong: sum.case_cong if_cong)

lemma return_date_accepted:
  assumes "(\<not> truthy v \<and> rd = None)
           \<or> (truthy v \<and> (\<exists>s. validateDate h v ''return_date'' = Inr s \<and> \<not> date_le s dep \<and> rd = Some s))"
  shows "validate_return_date h v dep = Inr rd"
  using assms by (auto simp: validate_return_date_def)

text \<open>The line of an offer that names its class is a part of the result text.\<close>

lemma class_line_in_flight:
  "sublist (''   Class: '' @ travel_class f) (format_flight shown i f)"
proof -
  have "format_flight shown i f =
      (show_int (i + 1) @ ''. '' @ airline f @ '' ('' @ flight_number f @ '')'' @ esc_nl @
       ''   Time: '' @ departure_time f @ '' '' @ arrow @ '' '' @ arrival_time f @
         '' ('' @ duration f @ '')'' @ esc_nl @
       ''   Price: '' @ price_currency f @ '' '' @ shown (price_amount f) @ '' total ('' @
         price_currency f @ '' '' @ shown (price_per_person f) @ ''/person)'' @ esc_nl @
       ''   Aircraft: '' @ (if aircraft f \<noteq> [] then aircraft f else ''Aircraft info unavailable'') @
         '' | '' @ (if stops f = 0 then ''Direct'' else show_int (stops f) @ '' stop(s)'') @ esc_nl)
      @ (''   Class: '' @ travel_class f) @
      ((if booking_class f \<noteq> [] then '' ('' @ booking_class f @ '')'' else []) @
       (case segments f of
          None \<Rightarrow> []
        | Some n \<Rightarrow> if n > 1 then '' | '' @ show_int n @ '' segments'' else []) @
       esc_nl @ esc_nl)"
    by (simp add: format_flight_def)
  then show ?thesis by (simp only: sublist_appendI)
qed

lemma class_line_in_flights:
  "f \<in> set fs \<Longrightarrow> sublist (''   Class: '' @ travel_class f) (format_flights shown i fs)"
proof (induction fs arbitrary: i)
  case Nil
  then show ?case by simp
next
  case (Cons a fs)
  show ?case
  proof (cases "f = a")
    case True
    have "sublist (''   Class: '' @ travel_class a) (format_flight shown i a)"
      by (rule class_line_in_flight)
    then show ?thesis unfolding True format_flights.simps by (auto simp only: sublist_append)
  next
    case False
    with Cons.prems have "f \<in> set fs" by simp
    then have "sublist (''   Class: '' @ travel_class f) (format_flights shown (i + 1) fs)"
      by (rule Cons.IH)
    then show ?thesis unfolding format_flights.simps by (auto simp only: sublist_append)
  qed
qed

lemma class_line_in_results:
  assumes "f \<in> set fs"
  shows "sublist (''   Class: '' @ travel_class f)
           (formatFlightSearchResults live shown fs a b c rd)"
proof -
  have "sublist (''   Class: '' @ travel_class f) (format_flights shown 0 fs)"
    using assms by (rule class_line_in_flights)
  then show ?thesis
    unfolding formatFlightSearchResults_def by (auto simp only: sublist_append)
qed

text \<open>
  C10: travel-class validation rejects only truthy values outside the enumeration. Every
  falsy value (\<open>undefined\<close>, \<open>null\<close>, the empty string, and also \<open>false\<close> and \<open>0\<close>)
  gives \<open>economy\<close>; a member of the enumeration is returned as it is; a truthy value
  that is not a member is rejected with a validation error for \<open>travel_class\<close>; and
  the empty string is not a member. A search whose \<open>travel_class\<close> is falsy is the very
  search with \<open>travel_class = "economy"\<close>: same result, same back-end calls; when its
  arguments pass validation, the validated class is \<open>economy\<close> and so is the class of
  every synthetic offer. And such a search succeeds with the class economy: when its
  other arguments are valid (airport codes, departure date and passenger count pass
  validation, the return date is missing or passes date validation and is later than
  the departure date, origin and destination differ), the search runs its back end for
  the class \<open>economy\<close>; in Fallback mode it returns the text of the five offers of the
  generator for the class \<open>economy\<close>, each offer has that class, and the text has the
  line \<open>Class: economy\<close>; in Provider mode the one back-end call is the provider search
  for the class \<open>economy\<close>.
\<close>

theorem travel_class_falsy_is_economy:
  "(\<not> truthy tc \<longrightarrow> validateTravelClass tc = Inr ''economy'')
   \<and> (s \<in> set validClasses \<longrightarrow> validateTravelClass (JStr s) = Inr s)
   \<and> (truthy tc \<and> \<not> includes_class tc \<longrightarrow>
        validateTravelClass tc =
          Inl (ValidationError (''Travel class must be one of: '' @ validClasses_joined) ''travel_class'' tc))
   \<and> [] \<notin> set validClasses
   \<and> (\<not> truthy (property args ''travel_class'') \<longrightarrow>
        searchFlights w args = searchFlights w ((''travel_class'', JStr ''economy'') # args)
        \<and> (\<forall>v. validate_search (clock w) args = Inr v \<longrightarrow>
              validatedTravelClass v = ''economy''
              \<and> (\<forall>f \<in> set (generateMockFlights (random w) (validatedOrigin v) (validatedDestination v)
                     (validatedDepartureDate v) (validatedReturnDate v) (validatedAdults v)
                     (validatedTravelClass v)). travel_class f = ''economy'')))
   \<and> (\<not> truthy (property args ''travel_class'')
       \<and> validateAirportCode (property args ''origin'') = Inr vo
       \<and> validateAirportCode (property args ''destination'') = Inr vd
       \<and> validateDate (clock w) (property args ''departure_date'') ''departure_date'' = Inr dep
       \<and> validatePassengerCount (property args ''adults'') = Inr n
       \<and> ((\<not> truthy (property args ''return_date'') \<and> rd = None)
           \<or> (truthy (property args ''return_date'')
               \<and> (\<exists>s. validateDate (clock w) (property args ''return_date'') ''return_date'' = Inr s
                       \<and> \<not> date_le s dep \<and> rd = Some s)))
       \<and> vo \<noteq> vd \<longrightarrow>
        searchFlights w args =
          search_try w \<lparr> validatedOrigin = vo, validatedDestination = vd,
                         validatedDepartureDate = dep, validatedReturnDate = rd,
                         validatedAdults = n, validatedTravelClass = ''economy'' \<rparr>
        \<and> (\<not> useRealAPI w \<longrightarrow>
              searchFlights w args =
                (Inr (TextContent
                       (formatFlightSearchResults False show_int
                          (generateMockFlights (random w) vo vd dep rd n ''economy'') vo vd dep rd)),
                 [Generator])
              \<and> length (generateMockFlights (random w) vo vd dep rd n ''economy'') = 5
              \<and> (\<forall>f \<in> set (generateMockFlights (random w) vo vd dep rd n ''economy'').
                    travel_class f = ''economy'')
              \<and> sublist ''   Class: economy''
                    (formatFlightSearchResults False show_int
                       (generateMockFlights (random w) vo vd dep rd n ''economy'') vo vd dep rd))
        \<and> (useRealAPI w \<longrightarrow>
              snd (searchFlights w args) =
                [ProviderSearch \<lparr> sp_origin = vo, sp_destination = vd, sp_departure_date = dep,
                                  sp_return_date = rd, sp_adults = n,
                                  sp_travel_class = ''economy'' \<rparr>]))"
proof (intro conjI impI allI)
  assume "\<not> truthy tc" then show "validateTravelClass tc = Inr ''economy''"
    by (rule validateTravelClass_falsy)
next
  assume "s \<in> set validClasses" then show "validateTravelClass (JStr s) = Inr s"
    by (auto simp: validateTravelClass_def validClasses_def)
next
  assume "truthy tc \<and> \<not> includes_class tc"
  then show "validateTravelClass tc =
          Inl (ValidationError (''Travel class must be one of: '' @ validClasses_joined) ''travel_class'' tc)"
    by (simp add: validateTravelClass_def)
next
  show "[] \<notin> set validClasses" by (simp add: validClasses_def)
next
  assume f: "\<not> truthy (property args ''travel_class'')"
  then show "searchFlights w args = searchFlights w ((''travel_class'', JStr ''economy'') # args)"
    by (simp add: searchFlights_def validate_search_falsy_class)
  fix v assume v: "validate_search (clock w) args = Inr v"
  from f have "validateTravelClass (property args ''travel_class'') = Inr ''economy''"
    by (rule validateTravelClass_falsy)
  with v show tc: "validatedTravelClass v = ''economy''"
    by (auto simp: validate_search_def split: sum.splits if_splits)
  show "\<forall>f \<in> set (generateMockFlights (random w) (validatedOrigin v) (validatedDestination v)
                     (validatedDepartureDate v) (validatedReturnDate v) (validatedAdults v)
                     (validatedTravelClass v)). travel_class f = ''economy''"
    by (auto simp: set_generateMockFlights travel_class_mock tc)
next
  let ?fs = "generateMockFlights (random w) vo vd dep rd n ''economy''"
  let ?v = "\<lparr> validatedOrigin = vo, validatedDestination = vd,
               validatedDepartureDate = dep, validatedReturnDate = rd,
               validatedAdults = n, validatedTravelClass = ''economy'' \<rparr>"
  assume h: "\<not> truthy (property args ''travel_class'')
       \<and> validateAirportCode (property args ''origin'') = Inr vo
       \<and> validateAirportCode (property args ''destination'') = Inr vd
       \<and> validateDate (clock w) (property args ''departure_date'') ''departure_date'' = Inr dep
       \<and> validatePassengerCount (property args ''adults'') = Inr n
       \<and> ((\<not> truthy (property args ''return_date'') \<and> rd = None)
           \<or> (truthy (property args ''return_date'')
               \<and> (\<exists>s. validateDate (clock w) (property args ''return_date'') ''return_date'' = Inr s
                       \<and> \<not> date_le s dep \<and> rd = Some s)))
       \<and> vo \<noteq> vd"
  then have tc: "validateTravelClass (property args ''travel_class'') = Inr ''economy''"
    by (simp add: validateTravelClass_falsy)
  from h have r: "validate_return_date (clock w) (property args ''return_date'') dep = Inr rd"
    by (intro return_date_accepted) blast
  from h tc r have v: "validate_search (clock w) args = Inr ?v"
    by (simp add: validate_search_def)
  then show s: "searchFlights w args = search_try w ?v" by (simp add: searchFlights_def)
  have len: "length ?fs = 5" by (rule length_generateMockFlights)
  then have ne: "?fs \<noteq> []" by auto
  then have hd: "hd ?fs \<in> set ?fs" by simp
  have cl: "\<forall>f \<in> set ?fs. travel_class f = ''economy''"
    by (auto simp: set_generateMockFlights travel_class_mock)
  {
    assume m: "\<not> useRealAPI w"
    then show "searchFlights w args =
                (Inr (TextContent (formatFlightSearchResults False show_int ?fs vo vd dep rd)),
                 [Generator])"
      using ne by (simp add: s search_try_def search_result_def)
    show "length ?fs = 5" by (rule len)
    show "\<forall>f \<in> set ?fs. travel_class f = ''economy''" by (rule cl)
    from class_line_in_results [OF hd, of False show_int vo vd dep rd] cl hd
    show "sublist ''   Class: economy'' (formatFlightSearchResults False show_int ?fs vo vd dep rd)"
      by simp
  }
  {
    assume m: "useRealAPI w"
    then show "snd (searchFlights w args) =
                [ProviderSearch \<lparr> sp_origin = vo, sp_destination = vd, sp_departure_date = dep,
                                  sp_return_date = rd, sp_adults = n,
                                  sp_travel_class = ''economy'' \<rparr>]"
      by (simp add: s search_try_def params_of_def split: sum.splits)
  }
qed

theorem travel_class_falsy_is_economy_witness:
  "validateTravelClass (JStr []) = Inr ''economy''
   \<and> validateTravelClass (JStr ''first'') = Inr ''first''
   \<and> validateTravelClass (JStr ''royal'') =
        Inl (ValidationError (''Travel class must be one of: '' @ validClasses_joined)
               ''travel_class'' (JStr ''royal''))
   \<and> searchFlights fallback_world args_empty_class =
        searchFlights fallback_world ((''travel_class'', JStr ''economy'') # args_empty_class)
   \<and> searchFlights fallback_world args_empty_class =
        (Inr (TextContent
               (formatFlightSearchResults False show_int
                  (generateMockFlights (\<lambda>k. 7 / 8) ''LAX'' ''JFK'' ''2025-06-11'' None 1 ''economy'')
                  ''LAX'' ''JFK'' ''2025-06-11'' None)), [Generator])
   \<and> sublist ''   Class: economy''
        (formatFlightSearchResults False show_int
           (generateMockFlights (\<lambda>k. 7 / 8) ''LAX'' ''JFK'' ''2025-06-11'' None 1 ''economy'')
           ''LAX'' ''JFK'' ''2025-06-11'' None)
   \<and> map travel_class (generateMockFlights (\<lambda>k. 7 / 8) ''LAX'' ''JFK'' ''2025-06-11'' None 1 ''economy'')
        = replicate 5 ''economy''
   \<and> snd (searchFlights rate_limited_world args_empty_class) = [ProviderSearch example_params]"
proof -
  let ?fs = "generateMockFlights (\<lambda>k. 7 / 8) ''LAX'' ''JFK'' ''2025-06-11'' None 1 ''economy''"
  have f: "\<not> truthy (JStr [])" by simp
  have m: "''first'' \<in> set validClasses" by (simp add: validClasses_def)
  have t: "truthy (JStr ''royal'') \<and> \<not> includes_class (JStr ''royal'')"
    by (simp add: validClasses_def)
  have p: "\<not> truthy (property args_empty_class ''travel_class'')"
    by (simp add: args_empty_class_def property_def)
  have nr: "\<not> truthy (property args_empty_class ''return_date'')"
    by (simp add: args_empty_class_def property_def)
  have a: "validateAirportCode (property args_empty_class ''origin'') = Inr ''LAX''"
    "validateAirportCode (property args_empty_class ''destination'') = Inr ''JFK''"
    "validateDate (clock fallback_world) (property args_empty_class ''departure_date'') ''departure_date''
       = Inr ''2025-06-11''"
    "validatePassengerCount (property args_empty_class ''adults'') = Inr 1"
    "validateDate (clock rate_limited_world) (property args_empty_class ''departure_date'') ''departure_date''
       = Inr ''2025-06-11''"
    by code_simp+
  have ne: "''LAX'' \<noteq> ''JFK''" by simp
  have w1: "\<not> useRealAPI fallback_world" "random fallback_world = (\<lambda>k. 7 / 8)"
    by (simp_all add: fallback_world_def)
  have w2: "useRealAPI rate_limited_world" by (simp add: rate_limited_world_def)
  have cl: "map travel_class ?fs = replicate 5 ''economy''"
    by code_simp
  note A = travel_class_falsy_is_economy
    [of "JStr []" "''first''" args_empty_class fallback_world "''LAX''" "''JFK''" "''2025-06-11''" 1 None]
  note B = travel_class_falsy_is_economy [of "JStr ''royal''" "''first''" args_empty_class fallback_world]
  note C = travel_class_falsy_is_economy
    [of "JStr []" "''first''" args_empty_class rate_limited_world "''LAX''" "''JFK''" "''2025-06-11''" 1 None]
  from A f m p have
    "validateTravelClass (JStr []) = Inr ''economy''"
    "validateTravelClass (JStr ''first'') = Inr ''first''"
    "searchFlights fallback_world args_empty_class =
        searchFlights fallback_world ((''travel_class'', JStr ''economy'') # args_empty_class)"
    by blast+
  moreover from B t have "validateTravelClass (JStr ''royal'') =
        Inl (ValidationError (''Travel class must be one of: '' @ validClasses_joined)
               ''travel_class'' (JStr ''royal''))"
    by blast
  moreover from A p nr a(1-4) ne w1(1) have
    "searchFlights fallback_world args_empty_class =
        (Inr (TextContent
               (formatFlightSearchResults False show_int
                  (generateMockFlights (random fallback_world) ''LAX'' ''JFK'' ''2025-06-11'' None 1 ''economy'')
                  ''LAX'' ''JFK'' ''2025-06-11'' None)), [Generator])"
    "sublist ''   Class: economy''
        (formatFlightSearchResults False show_int
           (generateMockFlights (random fallback_world) ''LAX'' ''JFK'' ''2025-06-11'' None 1 ''economy'')
           ''LAX'' ''JFK'' ''2025-06-11'' None)"
    by blast+
  moreover from C p nr a(1,2,5,4) ne w2 have
    "snd (searchFlights rate_limited_world args_empty_class) =
       [ProviderSearch \<lparr> sp_origin = ''LAX'', sp_destination = ''JFK'',
                         sp_departure_date = ''2025-06-11'', sp_return_date = None, sp_adults = 1,
                         sp_travel_class = ''economy'' \<rparr>]"
    by blast
  ultimately show ?thesis using cl by (simp add: w1(2) example_params_def)
qed

subsection \<open>Stop count of a synthetic offer\<close>

lemma mock_stops_values: "mock_stops x = 0 \<or> mock_stops x = 1"
  by (simp add: mock_stops_def)

lemma mock_stops_one: "mock_stops x = 1 \<longleftrightarrow> x \<le> 6 / 10"
  by (auto simp: mock_stops_def)

text \<open>The comparison of the source is with the literal \<open>0.6\<close>, a double; for a
  draw, which is a double, it is the comparison with 6/10.\<close>

lemma mock_stops_literal:
  "to_double x = x \<Longrightarrow> mock_stops x = (if x > to_double (6 / 10) then 0 else 1)"
  by (simp only: mock_stops_def greater_than_double_six_tenths)

lemma stops_mock: "stops (mock_flight r p a b c n tc) = mock_stops (r (p + 9))"
  by (simp add: mock_flight_def Let_def)

lemma draw_le_iff:
  assumes "0 < n"
  shows "(of_nat k / of_nat n :: rat) \<le> 6 / 10 \<longleftrightarrow> k \<le> (6 * n) div 10"
proof -
  have "(of_nat k / of_nat n :: rat) \<le> 6 / 10 \<longleftrightarrow> (of_nat (10 * k) :: rat) \<le> of_nat (6 * n)"
    using assms by (simp add: field_simps)
  also have "\<dots> \<longleftrightarrow> 10 * k \<le> 6 * n" by (simp only: of_nat_le_iff)
  also have "\<dots> \<longleftrightarrow> k \<le> (6 * n) div 10" by arith
  finally show ?thesis .
qed

lemma filter_le_upt: "m < n \<Longrightarrow> filter (\<lambda>k. k \<le> m) [0..<n] = [0..<Suc m]"
proof (induction n)
  case 0
  then show ?case by simp
next
  case (Suc n)
  show ?case
  proof (cases "m < n")
    case True
    with Suc.IH show ?thesis by simp
  next
    case False
    with Suc.prems have "m = n" by simp
    then have "filter (\<lambda>k. k \<le> m) [0..<n] = [0..<n]" by (auto simp: filter_id_conv)
    with \<open>m = n\<close> show ?thesis by simp
  qed
qed

lemma one_stop_count_eq:
  assumes "0 < n"
  shows "one_stop_count n = (6 * n) div 10 + 1"
proof -
  have lt: "(6 * n) div 10 < n" using assms by arith
  have eq: "(\<lambda>k. mock_stops (of_nat k / of_nat n) = 1) = (\<lambda>k. k \<le> (6 * n) div 10)"
    by (rule ext) (simp only: mock_stops_one draw_le_iff [OF assms])
  have "filter (\<lambda>k. mock_stops (of_nat k / of_nat n) = 1) [0..<n] = filter (\<lambda>k. k \<le> (6 * n) div 10) [0..<n]"
    by (simp only: eq)
  also have "\<dots> = [0..<Suc ((6 * n) div 10)]" using lt by (rule filter_le_upt)
  finally show ?thesis by (simp add: one_stop_count_def)
qed

text \<open>
  C9, as stated, fails: the claim gives an offer one stop with probability about 0.4 and
  has it direct otherwise. The source reads \<open>Math.random() > 0.6 ? 0 : 1\<close>, so an
  offer is direct for the draws above 0.6 and has one stop for all the others: of the
  hundred draws 0/100, ..., 99/100 it is 61, not about 40, that give one stop, and the
  draw 1/2 gives one stop while the draw 7/10 gives a direct flight.
\<close>

theorem one_stop_is_not_four_tenths:
  "one_stop_count 100 = 61 \<and> mock_stops (1 / 2) = 1 \<and> mock_stops (7 / 10) = 0"
  by (simp add: one_stop_count_eq mock_stops_def)

text \<open>
  C9, amended: the stop count of a synthetic offer is 0 or 1; it is 1 exactly when the
  draw is at most 0.6 and 0 (direct) when the draw is above 0.6, so that one stop has
  probability about 0.6 and direct about 0.4: among \<open>n\<close> equally spaced draws,
  \<open>\<lfloor>6n/10\<rfloor> + 1\<close> give one stop. The stop count of every offer of the generator is that
  of the tenth draw of its turn of the loop.
\<close>

theorem mock_stops_six_tenths:
  "(mock_stops x = 0 \<or> mock_stops x = 1)
   \<and> (mock_stops x = 1 \<longleftrightarrow> x \<le> 6 / 10)
   \<and> (0 < n \<longrightarrow> one_stop_count n = (6 * n) div 10 + 1)
   \<and> (\<forall>f \<in> set (generateMockFlights r a b c rd k tc).
          (stops f = 0 \<or> stops f = 1) \<and> (\<exists>i<5. stops f = mock_stops (r (10 * i + 9))))"
proof (intro conjI impI ballI)
  show "mock_stops x = 0 \<or> mock_stops x = 1" by (rule mock_stops_values)
  show "mock_stops x = 1 \<longleftrightarrow> x \<le> 6 / 10" by (rule mock_stops_one)
next
  assume "0 < n" then show "one_stop_count n = (6 * n) div 10 + 1" by (rule one_stop_count_eq)
next
  fix f assume "f \<in> set (generateMockFlights r a b c rd k tc)"
  then obtain i where i: "i < 5" "f = mock_flight r (10 * i) a b c k tc"
    by (auto simp: set_generateMockFlights)
  then show "stops f = 0 \<or> stops f = 1" by (simp add: stops_mock mock_stops_values)
  from i show "\<exists>i<5. stops f = mock_stops (r (10 * i + 9))" by (auto simp: stops_mock)
qed

theorem mock_stops_six_tenths_witness:
  "mock_stops (3 / 10) = 1 \<and> one_stop_count 10 = 7
   \<and> (stops (hd (generateMockFlights (\<lambda>k. 7 / 8) ''LAX'' ''JFK'' ''2025-06-11'' None 1 ''economy'')) = 0
      \<or> stops (hd (generateMockFlights (\<lambda>k. 7 / 8) ''LAX'' ''JFK'' ''2025-06-11'' None 1 ''economy'')) = 1)"
proof -
  let ?fs = "generateMockFlights (\<lambda>k. 7 / 8) ''LAX'' ''JFK'' ''2025-06-11'' None 1 ''economy''"
  have "length ?fs = 5" by (rule length_generateMockFlights)
  then have "?fs \<noteq> []" by auto
  then have m: "hd ?fs \<in> set ?fs" by simp
  have x: "(3 / 10 :: rat) \<le> 6 / 10" by simp
  have n: "0 < (10::nat)" by simp
  note A = mock_stops_six_tenths
    [of "3 / 10" 10 "\<lambda>k. 7 / 8" "''LAX''" "''JFK''" "''2025-06-11''" None 1 "''economy''"]
  from A x have "mock_stops (3 / 10) = 1" by blast
  moreover from A n have "one_stop_count 10 = 7" by simp
  moreover from A m have "stops (hd ?fs) = 0 \<or> stops (hd ?fs) = 1" by blast
  ultimately show ?thesis by blast
qed

subsection \<open>Failure mapping of the provider client\<close>

text \<open>
  The branches of the catch block, on the properties that it reads of the caught value.
  No offers (no data, or an empty list) give \<open>FLIGHT_NOT_FOUND\<close>. For a caught value
  that is not a \<open>FlightAPIError\<close> the block decides in this order: an entry of
  \<open>response.data.errors\<close> decides alone, whatever \<open>code\<close> and \<open>response.status\<close>
  are (code 38189 gives \<open>INVALID_AIRPORT_CODE\<close>, code 4926 gives
  \<open>INVALID_DATE_FORMAT\<close>, any other code gives \<open>API_UNAVAILABLE\<close> with the provider's
  code and detail); without such an entry, a \<open>code\<close> that is \<open>ENOTFOUND\<close> or
  \<open>ECONNREFUSED\<close> gives \<open>NETWORK_ERROR\<close>, whatever the status is; without that, a
  \<open>response.status\<close> of 429 gives \<open>API_RATE_LIMIT\<close>; and everything else, an
  exception of the normalisation included, gives \<open>API_UNAVAILABLE\<close> with the
  \<open>message\<close> of the caught value.
\<close>

lemma search_without_offers:
  "get (make_request sp) = Resolved None \<or> get (make_request sp) = Resolved (Some []) \<Longrightarrow>
     amadeus_searchFlights get normalise sp =
       Inl (FlightAPIError ''No flights found for the specified criteria'' FLIGHT_NOT_FOUND
              [(''searchParams'', search_params_value sp)])"
  by (auto simp: amadeus_searchFlights_def try_search_def search_catch_def)

lemma search_normalisation_fails:
  "get (make_request sp) = Resolved (Some (x # xs)) \<Longrightarrow> normalise (x # xs) = Inl msg \<Longrightarrow>
     amadeus_searchFlights get normalise sp =
       Inl (FlightAPIError ''Failed to search flights'' API_UNAVAILABLE [(''originalError'', JStr msg)])"
  by (simp add: amadeus_searchFlights_def try_search_def search_catch_def first_api_error_def
      thrown_of_exception_def)

lemma search_catch_structured_error:
  assumes "thrown_response e = Some resp" and "response_data_errors resp = firstError # rest"
  shows "api_code firstError = JNum 38189 \<Longrightarrow>
           search_catch (CaughtOther e) =
             FlightAPIError ''Invalid airport code provided'' INVALID_AIRPORT_CODE
               [(''detail'', detail_value (api_detail firstError))]"
    and "api_code firstError = JNum 4926 \<Longrightarrow>
           search_catch (CaughtOther e) =
             FlightAPIError ''Invalid date format or date in the past'' INVALID_DATE_FORMAT
               [(''detail'', detail_value (api_detail firstError))]"
    and "api_code firstError \<noteq> JNum 38189 \<Longrightarrow> api_code firstError \<noteq> JNum 4926 \<Longrightarrow>
           \<exists>m. search_catch (CaughtOther e) =
             FlightAPIError m API_UNAVAILABLE
               [(''code'', api_code firstError), (''detail'', detail_value (api_detail firstError))]"
  using assms by (simp_all add: search_catch_def first_api_error_def)

lemma search_catch_no_structured_error:
  assumes "first_api_error e = None"
  shows "thrown_code e = JStr ''ENOTFOUND'' \<or> thrown_code e = JStr ''ECONNREFUSED'' \<Longrightarrow>
           search_catch (CaughtOther e) =
             FlightAPIError ''Unable to connect to flight data service'' NETWORK_ERROR
               [(''originalError'', thrown_message e)]"
    and "thrown_code e \<noteq> JStr ''ENOTFOUND'' \<Longrightarrow> thrown_code e \<noteq> JStr ''ECONNREFUSED'' \<Longrightarrow>
           thrown_response e = Some resp \<Longrightarrow> response_status resp = JNum 429 \<Longrightarrow>
           search_catch (CaughtOther e) =
             FlightAPIError ''API rate limit exceeded. Please try again later'' API_RATE_LIMIT []"
    and "thrown_code e \<noteq> JStr ''ENOTFOUND'' \<Longrightarrow> thrown_code e \<noteq> JStr ''ECONNREFUSED'' \<Longrightarrow>
           \<not> (\<exists>resp. thrown_response e = Some resp \<and> response_status resp = JNum 429) \<Longrightarrow>
           search_catch (CaughtOther e) =
             FlightAPIError ''Failed to search flights'' API_UNAVAILABLE
               [(''originalError'', thrown_message e)]"
  using assms by (auto simp: search_catch_def split: option.splits)

text \<open>
  A rejection of the provider's library takes none of the branches but the last,
  whatever its class, its HTTP status and its structured errors are: it has the
  status under \<open>statusCode\<close>, the errors under \<open>result.errors\<close> and the class name
  as its \<open>code\<close>, and it has no \<open>message\<close>.
\<close>

lemma class_name_not_network_code:
  "class_name c \<noteq> ''ENOTFOUND'' \<and> class_name c \<noteq> ''ECONNREFUSED''"
  by (cases c) simp_all

lemma search_catch_rejection:
  "search_catch (CaughtOther (thrown_of_rejection e)) =
     FlightAPIError ''Failed to search flights'' API_UNAVAILABLE [(''originalError'', JUndefined)]"
  by (simp add: search_catch_def first_api_error_def thrown_of_rejection_def
      class_name_not_network_code)

lemma search_rejected:
  "get (make_request sp) = Rejected e \<Longrightarrow>
     amadeus_searchFlights get normalise sp =
       Inl (FlightAPIError ''Failed to search flights'' API_UNAVAILABLE
              [(''originalError'', JUndefined)])"
  by (simp add: amadeus_searchFlights_def try_search_def search_catch_rejection)

text \<open>
  C2: when the provider's flight search fails, a provider error for a bad location is to
  give InvalidAirportCode, a refused connection NetworkError and the HTTP status 429
  ApiRateLimit, in the order of precedence of the claim; the catch block of the client
  has a branch for each of them. The program does not return these kinds. When the
  provider's library rejects with the structured error 38189 (HTTP status 400), with the
  HTTP status 429, or because the connection is refused, the client returns
  \<open>API_UNAVAILABLE\<close> with the message \<open>Failed to search flights\<close> and an undefined
  original message in all three cases, and the caller of a rate-limited search receives
  the text of that error.
\<close>

theorem library_rejections_are_API_UNAVAILABLE:
  "amadeus_searchFlights (\<lambda>q. Rejected rejection_bad_location) (\<lambda>offers :: unit list. Inr [])
       example_params =
     Inl (FlightAPIError ''Failed to search flights'' API_UNAVAILABLE [(''originalError'', JUndefined)])
   \<and> amadeus_searchFlights (\<lambda>q. Rejected rejection_rate_limit) (\<lambda>offers :: unit list. Inr [])
       example_params =
     Inl (FlightAPIError ''Failed to search flights'' API_UNAVAILABLE [(''originalError'', JUndefined)])
   \<and> amadeus_searchFlights (\<lambda>q. Rejected rejection_refused) (\<lambda>offers :: unit list. Inr [])
       example_params =
     Inl (FlightAPIError ''Failed to search flights'' API_UNAVAILABLE [(''originalError'', JUndefined)])
   \<and> callTool rate_limited_world ''search_flights'' (Some args_one_way) =
     Inr (TextContent
            (''Flight API Error: Failed to search flights'' @ esc_nl @ esc_nl @
             ''Error Code: API_UNAVAILABLE'' @ esc_nl @ esc_nl @
             ''Details:'' @ esc_nl @ ''{}''))"
  by code_simp

subsection \<open>Cross-field rules of the flight search\<close>

text \<open>
  C4, as stated, fails: the claim has a search with equal origin and destination fail
  with a validation error naming \<open>destination\<close> whenever the arguments are valid one by
  one. The source checks the return date first, so when the return date is also not
  later than the departure date, the error names \<open>return_date\<close>: a search from LAX
  to LAX that leaves and returns on 2025-06-11.
\<close>

theorem same_airport_same_day_names_return_date:
  "searchFlights fallback_world args_same_airport_same_day =
     (Inl (ValidationError ''Return date must be after departure date'' ''return_date''
             (JStr ''2025-06-11'')), [])
   \<and> error_field (fst (searchFlights fallback_world args_same_airport_same_day)) \<noteq> Some ''destination''"
  by code_simp

text \<open>
  C4, amended. Let the arguments be valid one by one: both airport codes, the departure
  date, the passenger count and the travel class pass their validators, and so does the
  return date when one is supplied. Then (a) if a return date is supplied that is earlier
  than or equal to the departure date, the search fails with a validation error naming
  \<open>return_date\<close>; (b) if the normalised origin equals the normalised destination and
  (a) does not apply, the search fails with a validation error naming \<open>destination\<close>.
  In both cases no back end is called: neither the provider nor the generator.
\<close>

theorem cross_field_rules:
  assumes "validateAirportCode (property args ''origin'') = Inr vo"
    and "validateAirportCode (property args ''destination'') = Inr vd"
    and "validateDate (clock w) (property args ''departure_date'') ''departure_date'' = Inr dep"
    and "validatePassengerCount (property args ''adults'') = Inr n"
    and "validateTravelClass (property args ''travel_class'') = Inr tc"
    and "truthy (property args ''return_date'') \<longrightarrow>
           validateDate (clock w) (property args ''return_date'') ''return_date'' = Inr rd"
  shows "(truthy (property args ''return_date'') \<and> date_le rd dep \<longrightarrow>
            searchFlights w args =
              (Inl (ValidationError ''Return date must be after departure date'' ''return_date''
                      (property args ''return_date'')), []))
       \<and> (vo = vd \<and> \<not> (truthy (property args ''return_date'') \<and> date_le rd dep) \<longrightarrow>
            searchFlights w args =
              (Inl (ValidationError ''Origin and destination airports must be different''
                      ''destination'' (property args ''destination'')), []))"
  using assms
  by (auto simp: searchFlights_def validate_search_def validate_return_date_def)

theorem cross_field_rules_witness:
  "searchFlights fallback_world args_early_return =
     (Inl (ValidationError ''Return date must be after departure date'' ''return_date''
             (JStr ''2025-06-11'')), [])
   \<and> searchFlights fallback_world args_same_airport =
     (Inl (ValidationError ''Origin and destination airports must be different''
             ''destination'' (JStr ''lax'')), [])"
proof -
  have a: "validateAirportCode (property args_early_return ''origin'') = Inr ''LAX''"
    "validateAirportCode (property args_early_return ''destination'') = Inr ''JFK''"
    "validateDate (clock fallback_world) (property args_early_return ''departure_date'') ''departure_date''
       = Inr ''2025-06-12''"
    "validatePassengerCount (property args_early_return ''adults'') = Inr 1"
    "validateTravelClass (property args_early_return ''travel_class'') = Inr ''economy''"
    "truthy (property args_early_return ''return_date'') \<longrightarrow>
       validateDate (clock fallback_world) (property args_early_return ''return_date'') ''return_date''
         = Inr ''2025-06-11''"
    by code_simp+
  have a': "truthy (property args_early_return ''return_date'') \<and> date_le ''2025-06-11'' ''2025-06-12''"
    by code_simp
  have av: "property args_early_return ''return_date'' = JStr ''2025-06-11''"
    by code_simp
  have b: "validateAirportCode (property args_same_airport ''origin'') = Inr ''LAX''"
    "validateAirportCode (property args_same_airport ''destination'') = Inr ''LAX''"
    "validateDate (clock fallback_world) (property args_same_airport ''departure_date'') ''departure_date''
       = Inr ''2025-06-11''"
    "validatePassengerCount (property args_same_airport ''adults'') = Inr 1"
    "validateTravelClass (property args_same_airport ''travel_class'') = Inr ''economy''"
    "truthy (property args_same_airport ''return_date'') \<longrightarrow>
       validateDate (clock fallback_world) (property args_same_airport ''return_date'') ''return_date''
         = Inr ''2025-06-12''"
    by code_simp+
  have b': "''LAX'' = ''LAX'' \<and>
      \<not> (truthy (property args_same_airport ''return_date'') \<and> date_le ''2025-06-12'' ''2025-06-11'')"
    by code_simp
  have bv: "property args_same_airport ''destination'' = JStr ''lax''"
    by code_simp
  from cross_field_rules [OF a] a' av
  have 1: "searchFlights fallback_world args_early_return =
     (Inl (ValidationError ''Return date must be after departure date'' ''return_date''
             (JStr ''2025-06-11'')), [])"
    by metis
  from cross_field_rules [OF b] b' bv
  have 2: "searchFlights fallback_world args_same_airport =
     (Inl (ValidationError ''Origin and destination airports must be different''
             ''destination'' (JStr ''lax'')), [])"
    by metis
  from 1 2 show ?thesis by blast
qed

subsection \<open>Flight status\<close>

lemma statuses_top:
  "to_double ((1 - 1 / 2 ^ 53) * of_nat (length statuses)) < of_nat (length statuses)"
  by code_simp

lemma gates_top:
  "to_double ((1 - 1 / 2 ^ 53) * of_nat (length gates)) < of_nat (length gates)"
  by code_simp

lemma drawn_status_member: "rng_ok r \<Longrightarrow> drawn_status r \<in> set statuses"
proof -
  assume "rng_ok r"
  then have "0 \<le> r 0" "r 0 < 1" "to_double (r 0) = r 0" by (auto simp: rng_ok_def)
  then have "nat \<lfloor>to_double (r 0 * of_nat (length statuses))\<rfloor> < length statuses"
    using statuses_top by (rule draw_index)
  then show ?thesis unfolding drawn_status_def by (rule nth_mem)
qed

lemma drawn_gate_member: "rng_ok r \<Longrightarrow> drawn_gate r \<in> set gates"
proof -
  assume "rng_ok r"
  then have "0 \<le> r 1" "r 1 < 1" "to_double (r 1) = r 1" by (auto simp: rng_ok_def)
  then have "nat \<lfloor>to_double (r 1 * of_nat (length gates))\<rfloor> < length gates"
    using gates_top by (rule draw_index)
  then show ?thesis unfolding drawn_gate_def by (rule nth_mem)
qed

lemma line_in_text: "l \<in> set ls \<Longrightarrow> sublist (l @ esc_nl) (render_lines ls)"
proof (induction ls)
  case Nil
  then show ?case by simp
next
  case (Cons a ls)
  show ?case
  proof (cases "l = a")
    case True
    then have "prefix (l @ esc_nl) (render_lines (a # ls))" by (simp add: render_lines_def)
    then show ?thesis by (rule prefix_imp_sublist)
  next
    case False
    with Cons have "sublist (l @ esc_nl) (render_lines ls)" by simp
    then have "sublist (l @ esc_nl) ((a @ esc_nl) @ render_lines ls)"
      by (auto simp: sublist_append)
    then show ?thesis by (simp add: render_lines_def)
  qed
qed

lemma has_fieldI: "l \<in> set ls \<Longrightarrow> prefix (label @ '': '') l \<Longrightarrow> has_field label ls"
  by (auto simp: has_field_def list_ex_iff)

text \<open>
  C6: a status request with a valid flight number and date returns the text of
  \<open>flight_status_lines\<close>; the status is one of the six and the gate one of the five.
  When the status drawn is \<open>Cancelled\<close>, the result has no gate field (and no
  scheduled departure). When it is any other status, the result has the gate line and a
  scheduled departure line, both also as parts of the text; a delayed status adds the
  estimated departure and the fixed delay reason; an arrived or departed status adds the
  actual time.
\<close>

theorem flight_status_fields:
  assumes "rng_ok (random w)"
    and "validateFlightNumber (property args ''flight_number'') = Inr fn"
    and "validateDate (clock w) (property args ''date'') ''date'' = Inr d"
  shows "getFlightStatus w args =
           Inr (TextContent (render_lines (flight_status_lines (random w) fn d)))
       \<and> drawn_status (random w) \<in> set statuses
       \<and> drawn_gate (random w) \<in> set gates
       \<and> (drawn_status (random w) = ''Cancelled'' \<longrightarrow>
            \<not> has_field ''Gate'' (flight_status_lines (random w) fn d)
            \<and> \<not> has_field ''Scheduled Departure'' (flight_status_lines (random w) fn d))
       \<and> (drawn_status (random w) \<noteq> ''Cancelled'' \<longrightarrow>
            (''Gate: '' @ drawn_gate (random w)) \<in> set (flight_status_lines (random w) fn d)
            \<and> (''Scheduled Departure: '' @ generateRandomTime (random w) 2)
                 \<in> set (flight_status_lines (random w) fn d)
            \<and> has_field ''Gate'' (flight_status_lines (random w) fn d)
            \<and> has_field ''Scheduled Departure'' (flight_status_lines (random w) fn d)
            \<and> sublist (''Gate: '' @ drawn_gate (random w) @ esc_nl)
                 (render_lines (flight_status_lines (random w) fn d))
            \<and> sublist (''Scheduled Departure: '' @ generateRandomTime (random w) 2 @ esc_nl)
                 (render_lines (flight_status_lines (random w) fn d)))
       \<and> (drawn_status (random w) = ''Delayed'' \<longrightarrow>
            (''Estimated Departure: '' @ generateRandomTime (random w) 4)
                 \<in> set (flight_status_lines (random w) fn d)
            \<and> ''Delay Reason: Weather conditions'' \<in> set (flight_status_lines (random w) fn d))
       \<and> (drawn_status (random w) = ''Arrived'' \<or> drawn_status (random w) = ''Departed'' \<longrightarrow>
            (''Actual Time: '' @ generateRandomTime (random w) 4)
                 \<in> set (flight_status_lines (random w) fn d))"
proof (intro conjI impI)
  show "getFlightStatus w args =
           Inr (TextContent (render_lines (flight_status_lines (random w) fn d)))"
    using assms(2,3) by (simp add: getFlightStatus_def)
  show "drawn_status (random w) \<in> set statuses" using assms(1) by (rule drawn_status_member)
  show "drawn_gate (random w) \<in> set gates" using assms(1) by (rule drawn_gate_member)
next
  assume c: "drawn_status (random w) = ''Cancelled''"
  then show "\<not> has_field ''Gate'' (flight_status_lines (random w) fn d)"
    by (simp add: has_field_def flight_status_lines_def)
  from c show "\<not> has_field ''Scheduled Departure'' (flight_status_lines (random w) fn d)"
    by (simp add: has_field_def flight_status_lines_def)
next
  assume c: "drawn_status (random w) \<noteq> ''Cancelled''"
  then show g: "(''Gate: '' @ drawn_gate (random w)) \<in> set (flight_status_lines (random w) fn d)"
    by (simp add: flight_status_lines_def)
  from c show s: "(''Scheduled Departure: '' @ generateRandomTime (random w) 2)
                 \<in> set (flight_status_lines (random w) fn d)"
    by (simp add: flight_status_lines_def)
  from g show "has_field ''Gate'' (flight_status_lines (random w) fn d)"
    by (rule has_fieldI) simp
  from s show "has_field ''Scheduled Departure'' (flight_status_lines (random w) fn d)"
    by (rule has_fieldI) simp
  from line_in_text [OF g]
  show "sublist (''Gate: '' @ drawn_gate (random w) @ esc_nl)
                 (render_lines (flight_status_lines (random w) fn d))"
    by simp
  from line_in_text [OF s]
  show "sublist (''Scheduled Departure: '' @ generateRandomTime (random w) 2 @ esc_nl)
                 (render_lines (flight_status_lines (random w) fn d))"
    by simp
next
  assume c: "drawn_status (random w) = ''Delayed''"
  then show "(''Estimated Departure: '' @ generateRandomTime (random w) 4)
                 \<in> set (flight_status_lines (random w) fn d)"
    by (simp add: flight_status_lines_def)
  from c show "''Delay Reason: Weather conditions'' \<in> set (flight_status_lines (random w) fn d)"
    by (simp add: flight_status_lines_def)
next
  assume c: "drawn_status (random w) = ''Arrived'' \<or> drawn_status (random w) = ''Departed''"
  then show "(''Actual Time: '' @ generateRandomTime (random w) 4)
                 \<in> set (flight_status_lines (random w) fn d)"
    by (auto simp: flight_status_lines_def)
qed

theorem flight_status_fields_witness:
  "getFlightStatus fallback_world args_status =
     Inr (TextContent (render_lines
       [''Flight Status'', [], ''Flight: AA123'', ''Date: 2025-06-11'', ''Status: Cancelled'',
        ''Flight has been cancelled. Please contact your airline for rebooking options.'']))
   \<and> \<not> has_field ''Gate'' (flight_status_lines (random fallback_world) ''AA123'' ''2025-06-11'')
   \<and> getFlightStatus delayed_world args_status =
     Inr (TextContent (render_lines
       [''Flight Status'', [], ''Flight: AA123'', ''Date: 2025-06-11'', ''Status: Delayed'',
        ''Gate: B7'', ''Scheduled Departure: 06:15'', ''Estimated Departure: 06:15'',
        ''Delay Reason: Weather conditions'']))
   \<and> has_field ''Gate'' (flight_status_lines (random delayed_world) ''AA123'' ''2025-06-11'')
   \<and> ''Delay Reason: Weather conditions''
        \<in> set (flight_status_lines (random delayed_world) ''AA123'' ''2025-06-11'')"
proof -
  have e1: "to_double (7 / 8) = 7 / 8" by code_simp
  have e2: "to_double (1 / 4) = 1 / 4" by code_simp
  have r1: "rng_ok (random fallback_world)" by (simp add: rng_ok_def fallback_world_def e1)
  have r2: "rng_ok (random delayed_world)"
    by (simp add: rng_ok_def delayed_world_def fallback_world_def e2)
  have v1: "validateFlightNumber (property args_status ''flight_number'') = Inr ''AA123''"
    by code_simp
  have d1: "validateDate (clock fallback_world) (property args_status ''date'') ''date'' = Inr ''2025-06-11''"
    by code_simp
  have d2: "validateDate (clock delayed_world) (property args_status ''date'') ''date'' = Inr ''2025-06-11''"
    by code_simp
  have s1: "drawn_status (random fallback_world) = ''Cancelled''" by code_simp
  have s2: "drawn_status (random delayed_world) = ''Delayed''" by code_simp
  have n2: "drawn_status (random delayed_world) \<noteq> ''Cancelled''" by (simp add: s2)
  have l1: "flight_status_lines (random fallback_world) ''AA123'' ''2025-06-11'' =
       [''Flight Status'', [], ''Flight: AA123'', ''Date: 2025-06-11'', ''Status: Cancelled'',
        ''Flight has been cancelled. Please contact your airline for rebooking options.'']"
    by code_simp
  have l2: "flight_status_lines (random delayed_world) ''AA123'' ''2025-06-11'' =
       [''Flight Status'', [], ''Flight: AA123'', ''Date: 2025-06-11'', ''Status: Delayed'',
        ''Gate: B7'', ''Scheduled Departure: 06:15'', ''Estimated Departure: 06:15'',
        ''Delay Reason: Weather conditions'']"
    by code_simp
  note A = flight_status_fields [OF r1 v1 d1]
  note B = flight_status_fields [OF r2 v1 d2]
  from A s1 have
    "getFlightStatus fallback_world args_status =
       Inr (TextContent (render_lines (flight_status_lines (random fallback_world) ''AA123'' ''2025-06-11'')))"
    "\<not> has_field ''Gate'' (flight_status_lines (random fallback_world) ''AA123'' ''2025-06-11'')"
    by blast+
  moreover from B s2 n2 have
    "getFlightStatus delayed_world args_status =
       Inr (TextContent (render_lines (flight_status_lines (random delayed_world) ''AA123'' ''2025-06-11'')))"
    "has_field ''Gate'' (flight_status_lines (random delayed_world) ''AA123'' ''2025-06-11'')"
    "''Delay Reason: Weather conditions''
        \<in> set (flight_status_lines (random delayed_world) ''AA123'' ''2025-06-11'')"
    by blast+
  ultimately show ?thesis by (simp only: l1 l2) blast
qed

subsection \<open>The synthetic flight generator: prices and flight numbers\<close>

lemma is_digit_digit_char: "is_digit (digit_char d)"
proof -
  have "0 \<le> d mod 10" "d mod 10 < 10" by simp_all
  then obtain k :: nat where k: "d mod 10 = int k" "k < 10"
    by (metis nat_less_iff zero_le_imp_eq_int of_nat_numeral nat_int)
  have "(48 + d mod 10) = int (48 + k)" using k by simp
  then have "digit_char d = char_of (48 + k)"
    unfolding digit_char_def by (metis char_of_nat)
  with k show ?thesis by (simp add: is_digit_def)
qed

lemma show_digits_4:
  assumes "1000 \<le> m" and "m \<le> 9999"
  shows "show_digits m =
     [digit_char (m div 10 div 10 div 10), digit_char (m div 10 div 10 mod 10),
      digit_char (m div 10 mod 10), digit_char (m mod 10)]"
proof -
  have a: "\<not> m < 10" "\<not> m div 10 < 10" "\<not> m div 10 div 10 < 10" "m div 10 div 10 div 10 < 10"
    using assms by auto
  have "show_digits m = show_digits (m div 10) @ [digit_char (m mod 10)]"
    using a(1) by (subst show_digits.simps) simp
  also have "show_digits (m div 10) = show_digits (m div 10 div 10) @ [digit_char (m div 10 mod 10)]"
    using a(2) by (subst show_digits.simps) simp
  also have "show_digits (m div 10 div 10) =
      show_digits (m div 10 div 10 div 10) @ [digit_char (m div 10 div 10 mod 10)]"
    using a(3) by (subst show_digits.simps) simp
  also have "show_digits (m div 10 div 10 div 10) = [digit_char (m div 10 div 10 div 10)]"
    using a(4) by (subst show_digits.simps) simp
  finally show ?thesis by simp
qed

lemma show_int_4:
  assumes "1000 \<le> m" and "m \<le> 9999"
  shows "length (show_int m) = 4 \<and> list_all is_digit (show_int m)"
  using assms by (simp add: show_int_def show_digits_4 is_digit_digit_char)

lemma passenger_count_range: "validatePassengerCount v = Inr n \<Longrightarrow> 1 \<le> n \<and> n \<le> 9"
  by (cases v) (auto split: if_splits)

lemma mock_price_positive:
  assumes "rng_ok r" and "1 \<le> n"
  shows "0 < price_amount (mock_flight r p a b c n tc)"
proof -
  let ?b = "\<lfloor>to_double (to_double (r (p + 2) * 800) + 200)\<rfloor>"
  have d: "0 \<le> r (p + 2)" "r (p + 2) < 1" "to_double (r (p + 2)) = r (p + 2)"
    using assms(1) by (simp_all add: rng_ok_def)
  have "to_double 200 \<le> to_double (to_double (r (p + 2) * 800) + 200)"
    using d by (rule shifted_draw) simp_all
  then have "(200 :: rat) \<le> to_double (to_double (r (p + 2) * 800) + 200)"
    by (simp only: to_double_200)
  then have "200 \<le> ?b" by (simp add: le_floor_iff)
  then have "0 < ?b" by linarith
  moreover have "0 < n" using assms(2) by linarith
  ultimately have "0 < ?b * n" by (rule mult_pos_pos)
  moreover have "price_amount (mock_flight r p a b c n tc) = ?b * n"
    by (simp add: mock_flight_def Let_def)
  ultimately show ?thesis by (simp only:)
qed

lemma airlines_top:
  "to_double ((1 - 1 / 2 ^ 53) * of_nat (length airlines)) < of_nat (length airlines)"
  by code_simp

lemma flight_number_top:
  "to_double (to_double ((1 - 1 / 2 ^ 53) * 9000) + 1000) < 10000"
  by code_simp

lemma mock_flight_number:
  assumes "rng_ok r"
  shows "\<exists>code \<in> set (map fst airlines). \<exists>m. 1000 \<le> m \<and> m \<le> 9999 \<and>
           flight_number (mock_flight r p a b c n tc) = code @ show_int m"
proof -
  let ?i = "nat \<lfloor>to_double (r p * of_nat (length airlines))\<rfloor>"
  let ?m = "\<lfloor>to_double (to_double (r (p + 1) * 9000) + 1000)\<rfloor>"
  have r0: "0 \<le> r p" "r p < 1" "to_double (r p) = r p"
    and r1: "0 \<le> r (p + 1)" "r (p + 1) < 1" "to_double (r (p + 1)) = r (p + 1)"
    using assms by (simp_all add: rng_ok_def)
  have "?i < length airlines" using r0 airlines_top by (rule draw_index)
  then have "airlines ! ?i \<in> set airlines" by (rule nth_mem)
  then have c: "fst (airlines ! ?i) \<in> set (map fst airlines)" by simp
  have "to_double 1000 \<le> to_double (to_double (r (p + 1) * 9000) + 1000)"
    using r1 by (rule shifted_draw) simp_all
  then have "(1000 :: rat) \<le> to_double (to_double (r (p + 1) * 9000) + 1000)"
    by (simp only: to_double_1000)
  then have lo: "1000 \<le> ?m" by (simp add: le_floor_iff)
  have "to_double (to_double (r (p + 1) * 9000) + 1000)
          \<le> to_double (to_double ((1 - 1 / 2 ^ 53) * 9000) + 1000)"
    using r1 by (rule shifted_draw) simp_all
  also note flight_number_top
  finally have "?m < 10000" by (simp add: floor_less_iff)
  then have hi: "?m \<le> 9999" by simp
  have "flight_number (mock_flight r p a b c n tc) = fst (airlines ! ?i) @ show_int ?m"
    by (simp add: mock_flight_def Let_def)
  with c lo hi show ?thesis by blast
qed

lemma code_and_digits:
  assumes "code \<in> set (map fst airlines)" and "length ds = 4" and "list_all is_digit ds"
  shows "letter_alnum_four_digits (code @ ds)"
proof -
  from assms(1) have "code = ''AA'' \<or> code = ''DL'' \<or> code = ''UA'' \<or> code = ''WN'' \<or> code = ''B6''"
    by (auto simp: airlines_def)
  with assms(2,3) show ?thesis
    by (auto simp: letter_alnum_four_digits_def is_upper_def is_digit_def)
qed

text \<open>
  C1, as stated, fails. First, one of the five airlines of the generator is JetBlue,
  whose code \<open>B6\<close> has a digit, so that a synthetic flight number need not match
  \<open>^[A-Z]{2}\d{4}$\<close>: with every draw at 7/8 the search from LAX to JFK passes
  validation and all five offers have the flight number \<open>B68875\<close>. Second, a valid
  origin, destination and departure date and a differing origin and destination do not
  make the search return offers: the search for no passenger fails on the passenger
  count, and the search that returns the day before it leaves fails on the return date.
\<close>

theorem synthetic_flight_number_with_digit_code:
  "validate_search host_utc args_one_way =
     Inr \<lparr> validatedOrigin = ''LAX'', validatedDestination = ''JFK'',
           validatedDepartureDate = ''2025-06-11'', validatedReturnDate = None,
           validatedAdults = 1, validatedTravelClass = ''economy'' \<rparr>
   \<and> map flight_number
         (generateMockFlights (\<lambda>k. 7 / 8) ''LAX'' ''JFK'' ''2025-06-11'' None 1 ''economy'')
       = replicate 5 ''B68875''
   \<and> \<not> two_letters_four_digits ''B68875''
   \<and> validateAirportCode (property args_zero_adults ''origin'') = Inr ''LAX''
   \<and> validateAirportCode (property args_zero_adults ''destination'') = Inr ''JFK''
   \<and> validateDate host_utc (property args_zero_adults ''departure_date'') ''departure_date''
       = Inr ''2025-06-11''
   \<and> searchFlights fallback_world args_zero_adults =
       (Inl (ValidationError ''Number of adults must be between 1 and 9'' ''adults'' (JNum 0)), [])
   \<and> validateAirportCode (property args_early_return ''origin'') = Inr ''LAX''
   \<and> validateAirportCode (property args_early_return ''destination'') = Inr ''JFK''
   \<and> validateDate host_utc (property args_early_return ''departure_date'') ''departure_date''
       = Inr ''2025-06-12''
   \<and> searchFlights fallback_world args_early_return =
       (Inl (ValidationError ''Return date must be after departure date'' ''return_date''
               (JStr ''2025-06-11'')), [])"
  by code_simp

text \<open>
  C1, amended. In Fallback mode, take a search whose origin, destination and departure
  date pass validation, whose passenger count and travel class pass validation (each
  has a default when it is missing), whose return date, when one is supplied, passes
  date validation and is later than the departure date, and whose origin differs from
  its destination. The search calls the generator and returns the text of its offers;
  the offers are exactly 5, in ascending order of total price; every offer has a
  positive total price and a flight number that is the code of one of the five airlines
  followed by a number from 1000 to 9999, that is a string matching
  \<open>^[A-Z][A-Z0-9]\d{4}$\<close>.
\<close>

theorem fallback_search_offers:
  assumes "\<not> useRealAPI w" and "rng_ok (random w)"
    and "validateAirportCode (property args ''origin'') = Inr vo"
    and "validateAirportCode (property args ''destination'') = Inr vd"
    and "validateDate (clock w) (property args ''departure_date'') ''departure_date'' = Inr dep"
    and "validatePassengerCount (property args ''adults'') = Inr n"
    and "validateTravelClass (property args ''travel_class'') = Inr tc"
    and "(\<not> truthy (property args ''return_date'') \<and> rd = None)
         \<or> (truthy (property args ''return_date'')
             \<and> (\<exists>s. validateDate (clock w) (property args ''return_date'') ''return_date'' = Inr s
                     \<and> \<not> date_le s dep \<and> rd = Some s))"
    and "vo \<noteq> vd"
  shows "searchFlights w args =
           (Inr (TextContent
                  (formatFlightSearchResults False show_int
                     (generateMockFlights (random w) vo vd dep rd n tc) vo vd dep rd)),
            [Generator])
       \<and> length (generateMockFlights (random w) vo vd dep rd n tc) = 5
       \<and> sorted (map price_amount (generateMockFlights (random w) vo vd dep rd n tc))
       \<and> (\<forall>f \<in> set (generateMockFlights (random w) vo vd dep rd n tc).
             0 < price_amount f
             \<and> letter_alnum_four_digits (flight_number f)
             \<and> (\<exists>code \<in> set (map fst airlines). \<exists>m. 1000 \<le> m \<and> m \<le> 9999 \<and>
                   flight_number f = code @ show_int m))"
proof (intro conjI ballI)
  have len: "length (generateMockFlights (random w) vo vd dep rd n tc) = 5"
    by (rule length_generateMockFlights)
  then have ne: "generateMockFlights (random w) vo vd dep rd n tc \<noteq> []" by auto
  have r: "validate_return_date (clock w) (property args ''return_date'') dep = Inr rd"
    using assms(8) by (rule return_date_accepted)
  have v: "validate_search (clock w) args =
      Inr \<lparr> validatedOrigin = vo, validatedDestination = vd, validatedDepartureDate = dep,
            validatedReturnDate = rd, validatedAdults = n, validatedTravelClass = tc \<rparr>"
    using assms(3-7,9) r by (simp add: validate_search_def)
  show "searchFlights w args =
           (Inr (TextContent
                  (formatFlightSearchResults False show_int
                     (generateMockFlights (random w) vo vd dep rd n tc) vo vd dep rd)),
            [Generator])"
    using assms(1) ne by (simp add: searchFlights_def v search_try_def search_result_def)
  show "length (generateMockFlights (random w) vo vd dep rd n tc) = 5" by (rule len)
  show "sorted (map price_amount (generateMockFlights (random w) vo vd dep rd n tc))"
    by (rule sorted_generateMockFlights)
next
  fix f assume "f \<in> set (generateMockFlights (random w) vo vd dep rd n tc)"
  then obtain i where f: "f = mock_flight (random w) (10 * i) vo vd dep n tc"
    by (auto simp: set_generateMockFlights)
  have n: "1 \<le> n" using assms(6) by (auto dest: passenger_count_range)
  show "0 < price_amount f" unfolding f using assms(2) n by (rule mock_price_positive)
  from mock_flight_number [OF assms(2), of "10 * i" vo vd dep n tc]
  obtain code m where cm: "code \<in> set (map fst airlines)" "1000 \<le> m" "m \<le> 9999"
    "flight_number f = code @ show_int m"
    unfolding f by blast
  then show "\<exists>code \<in> set (map fst airlines). \<exists>m. 1000 \<le> m \<and> m \<le> 9999 \<and>
                   flight_number f = code @ show_int m"
    by blast
  from cm show "letter_alnum_four_digits (flight_number f)"
    by (simp add: code_and_digits show_int_4)
qed

theorem fallback_search_offers_witness:
  "searchFlights fallback_world args_one_way =
     (Inr (TextContent
            (formatFlightSearchResults False show_int
               (generateMockFlights (\<lambda>k. 7 / 8) ''LAX'' ''JFK'' ''2025-06-11'' None 1 ''economy'')
               ''LAX'' ''JFK'' ''2025-06-11'' None)), [Generator])
   \<and> searchFlights fallback_world args_round_trip =
     (Inr (TextContent
            (formatFlightSearchResults False show_int
               (generateMockFlights (\<lambda>k. 7 / 8) ''LAX'' ''JFK'' ''2025-06-11'' (Some ''2025-06-14'') 1 ''economy'')
               ''LAX'' ''JFK'' ''2025-06-11'' (Some ''2025-06-14''))), [Generator])
   \<and> length (generateMockFlights (\<lambda>k. 7 / 8) ''LAX'' ''JFK'' ''2025-06-11'' None 1 ''economy'') = 5
   \<and> sorted (map price_amount
         (generateMockFlights (\<lambda>k. 7 / 8) ''LAX'' ''JFK'' ''2025-06-11'' None 1 ''economy''))
   \<and> 0 < price_amount
         (hd (generateMockFlights (\<lambda>k. 7 / 8) ''LAX'' ''JFK'' ''2025-06-11'' None 1 ''economy''))
   \<and> letter_alnum_four_digits (flight_number
         (hd (generateMockFlights (\<lambda>k. 7 / 8) ''LAX'' ''JFK'' ''2025-06-11'' None 1 ''economy'')))"
proof -
  let ?fs = "generateMockFlights (\<lambda>k. 7 / 8) ''LAX'' ''JFK'' ''2025-06-11'' None 1 ''economy''"
  have m: "\<not> useRealAPI fallback_world" by (simp add: fallback_world_def)
  have d: "to_double (7 / 8) = 7 / 8" by code_simp
  have r: "rng_ok (random fallback_world)" by (simp add: rng_ok_def fallback_world_def d)
  have rr: "random fallback_world = (\<lambda>k. 7 / 8)" by (simp add: fallback_world_def)
  have a: "validateAirportCode (property args_one_way ''origin'') = Inr ''LAX''"
    "validateAirportCode (property args_one_way ''destination'') = Inr ''JFK''"
    "validateDate (clock fallback_world) (property args_one_way ''departure_date'') ''departure_date''
       = Inr ''2025-06-11''"
    "validatePassengerCount (property args_one_way ''adults'') = Inr 1"
    "validateTravelClass (property args_one_way ''travel_class'') = Inr ''economy''"
    by code_simp+
  have a1: "\<not> truthy (property args_one_way ''return_date'')" by code_simp
  then have a': "(\<not> truthy (property args_one_way ''return_date'') \<and> (None :: string option) = None)
     \<or> (truthy (property args_one_way ''return_date'')
         \<and> (\<exists>s. validateDate (clock fallback_world) (property args_one_way ''return_date'') ''return_date'' = Inr s
                 \<and> \<not> date_le s ''2025-06-11'' \<and> None = Some s))"
    by blast
  have b: "validateAirportCode (property args_round_trip ''origin'') = Inr ''LAX''"
    "validateAirportCode (property args_round_trip ''destination'') = Inr ''JFK''"
    "validateDate (clock fallback_world) (property args_round_trip ''departure_date'') ''departure_date''
       = Inr ''2025-06-11''"
    "validatePassengerCount (property args_round_trip ''adults'') = Inr 1"
    "validateTravelClass (property args_round_trip ''travel_class'') = Inr ''economy''"
    by code_simp+
  have b1: "truthy (property args_round_trip ''return_date'')" by code_simp
  have b2: "validateDate (clock fallback_world) (property args_round_trip ''return_date'') ''return_date''
       = Inr ''2025-06-14''" by code_simp
  have b3: "\<not> date_le ''2025-06-14'' ''2025-06-11''" by code_simp
  from b1 b2 b3 have b': "(\<not> truthy (property args_round_trip ''return_date'') \<and> Some ''2025-06-14'' = None)
     \<or> (truthy (property args_round_trip ''return_date'')
         \<and> (\<exists>s. validateDate (clock fallback_world) (property args_round_trip ''return_date'') ''return_date'' = Inr s
                 \<and> \<not> date_le s ''2025-06-11'' \<and> Some ''2025-06-14'' = Some s))"
    by blast
  have ne: "''LAX'' \<noteq> ''JFK''" by simp
  note A = fallback_search_offers [OF m r a a' ne, unfolded rr]
  note B = fallback_search_offers [OF m r b b' ne, unfolded rr]
  from A have len: "length ?fs = 5" by blast
  then have "?fs \<noteq> []" by auto
  then have h: "hd ?fs \<in> set ?fs" by simp
  from A h have "0 < price_amount (hd ?fs)" "letter_alnum_four_digits (flight_number (hd ?fs))"
    by blast+
  moreover from A have "sorted (map price_amount ?fs)" by blast
  moreover from A have "searchFlights fallback_world args_one_way =
      (Inr (TextContent (formatFlightSearchResults False show_int ?fs ''LAX'' ''JFK'' ''2025-06-11'' None)),
       [Generator])"
    by blast
  moreover from B have "searchFlights fallback_world args_round_trip =
     (Inr (TextContent
            (formatFlightSearchResults False show_int
               (generateMockFlights (\<lambda>k. 7 / 8) ''LAX'' ''JFK'' ''2025-06-11'' (Some ''2025-06-14'') 1 ''economy'')
               ''LAX'' ''JFK'' ''2025-06-11'' (Some ''2025-06-14''))), [Generator])"
    by blast
  ultimately show ?thesis using len by simp
qed

subsection \<open>The handler of tool calls\<close>

text \<open>
  The handler returns a payload for every error but one kind: an exception leaves it
  exactly when the error is a validation error whose rejected value cannot be converted
  to a string, and then the exception is the \<open>TypeError\<close> of that conversion.
\<close>

lemma formatError_throws_iff:
  "formatError e = Inl x \<longleftrightarrow>
     (\<exists>m f v. e = ValidationError m f v \<and> js_to_string v = None \<and> x = TypeError_to_primitive)"
  by (cases e) (auto split: option.splits)

lemma callTool_throws_iff:
  "callTool w name arguments = Inl x \<longleftrightarrow>
     (\<exists>m f v. fst (run_tool w name arguments) = Inl (ValidationError m f v)
              \<and> js_to_string v = None \<and> x = TypeError_to_primitive)"
  by (auto simp: callTool_def formatError_throws_iff split: sum.splits)

text \<open>
  C7: every error thrown while a call is handled is to be caught at the handler and
  returned as a formatted text payload, so that no exception leaves the handler. The
  catch block of the handler calls \<open>formatError\<close>, which prints the rejected value of
  a validation error in a template literal, outside every \<open>try\<close> block. An object
  with a property \<open>toString\<close> that is not a function cannot be converted to a string.
  The search whose origin is the object \<open>{"toString": 1}\<close> is rejected by the
  validation of the airport code, \<open>formatError\<close> throws a \<open>TypeError\<close> on printing
  the origin, and the exception leaves the handler where a payload was to be returned.
\<close>

theorem unprintable_argument_leaves_handler:
  "fst (run_tool fallback_world ''search_flights'' (Some args_unprintable_origin)) =
     Inl (ValidationError ''Airport code is required'' ''airport_code''
            (JObj [(''toString'', JNum 1)]))
   \<and> js_to_string (JObj [(''toString'', JNum 1)]) = None
   \<and> callTool fallback_world ''search_flights'' (Some args_unprintable_origin) =
       Inl TypeError_to_primitive"
  by code_simp

end
